theory Spec2Isabelle
  imports Main
begin

section \<open>Values exchanged by the services\<close>

text \<open>
  The three services (app.py, auth.py, db.py) exchange JSON documents over HTTP.
  A Python dict is an association list, looked up with \<open>map_of\<close>. JSON numbers are
  modelled as integers only; no handler computes with them.
\<close>

datatype json =
    JNull
  | JBool bool
  | JInt int
  | JStr string
  | JArr "json list"
  | JObj "(string \<times> json) list"

text \<open>The subclasses of \<open>httpx.RequestError\<close>: a timeout, a refused connection, any other.\<close>

datatype request_error = TimeoutException | ConnectError | OtherRequestError

datatype sqlite_error = IntegrityError | OperationalError

datatype jwt_error = ExpiredSignatureError | InvalidTokenError string

text \<open>
  Every exception a handler can meet. \<open>HTTPException\<close> is the only one the handlers raise
  themselves; the others come out of library calls (\<open>client.post\<close>, \<open>response.json()\<close>,
  subscripting, \<open>.get\<close> on a non-dict, sqlite3, jwt).
\<close>

datatype exn =
    HTTPException int string
  | RequestError request_error
  | JSONDecodeError
  | KeyError string
  | TypeError
  | AttributeError
  | IndexError
  | SqliteError sqlite_error string
  | JwtError jwt_error

text \<open>
  An HTTP response as the handlers read it: \<open>status_code\<close>, and the body that
  \<open>.json()\<close> parses (\<open>None\<close> when the body is not JSON, so that \<open>.json()\<close> raises).
\<close>

record response =
  status_code :: int
  content :: "json option"

datatype service = AuthService | DbService

text \<open>
  An outbound call: the f-string URL is kept as the target service (the base URL read from
  the environment), the literal path and the interpolated value; \<open>timeout\<close> is in seconds.
\<close>

record http_request =
  http_method :: string
  target :: service
  path :: string
  path_arg :: "json option"
  headers :: "(string \<times> string) list"
  json_body :: "json option"
  timeout :: nat

datatype http_outcome = Responds response | Fails request_error

text \<open>
  The collaborators seen from one request: the outcome of the \<open>n\<close>-th outbound call
  (counted from 0) that the handler makes.
\<close>

type_synonym net = "nat \<Rightarrow> http_outcome"

section \<open>Telemetry and process state\<close>

datatype attr = AStr string | AInt int | ABool bool | AJson json

text \<open>
  What a handler does to the tracer and the meter, in order. Spans are numbered in the
  order they are started; \<open>SpanStart i name parent\<close> carries the span that was current
  when span \<open>i\<close> was started. \<open>SetStatus\<close> is always \<open>StatusCode.ERROR\<close> in the source, so
  only the message is kept. The float passed to \<open>request_duration.record\<close> is a wall-clock
  difference and is not modelled; the observation and its tags are.
\<close>

datatype event =
    SpanStart nat string "nat option"
  | SpanEnd nat
  | SetAttribute nat string attr
  | SetStatus nat string
  | CounterAdd string int "(string \<times> string) list"
  | HistogramRecord string "(string \<times> string) list"

text \<open>
  The db service's SQLite file. \<open>users\<close> maps the primary key \<open>username\<close> to the
  \<open>password\<close> column. \<open>items\<close> holds the rows of the items table in insertion order;
  the \<open>data\<close> column is text, either what \<open>json.dumps\<close> wrote or text that
  \<open>json.loads\<close> rejects. Timestamps are kept as abstract instants, not as text.
\<close>

datatype column_text = Dumped json | Raw string

record item_row =
  row_id :: string
  row_data :: column_text
  created_at :: nat
  updated_at :: nat

record database =
  users :: "string \<rightharpoonup> string"
  items :: "item_row list"

text \<open>
  The state one request runs in: the telemetry recorded so far, the next span number, the
  stack of current spans (the task-local context), the outbound calls made so far, and, for
  the db service, its tables.
\<close>

record world =
  events :: "event list"
  span_seq :: nat
  active :: "nat list"
  outbound :: "http_request list"
  tables :: database

section \<open>Control flow\<close>

text \<open>
  How a piece of Python finishes: it falls through with a value, it executes \<open>return\<close>,
  or it raises.
\<close>

datatype 'a completion = Normal 'a | Return json | Raise exn

type_synonym 'a prog = "world \<Rightarrow> 'a completion \<times> world"

type_synonym stmt = "unit prog"

definition pass :: stmt where
  "pass w = (Normal (), w)"

definition unit_prog :: "'a \<Rightarrow> 'a prog" where
  "unit_prog v w = (Normal v, w)"

definition return_val :: "json \<Rightarrow> 'a prog" where
  "return_val v w = (Return v, w)"

definition raise_exn :: "exn \<Rightarrow> 'a prog" where
  "raise_exn e w = (Raise e, w)"

definition and_then :: "'a prog \<Rightarrow> ('a \<Rightarrow> 'b prog) \<Rightarrow> 'b prog" where
  "and_then m k w =
     (case m w of
        (Normal v, w') \<Rightarrow> k v w'
      | (Return j, w') \<Rightarrow> (Return j, w')
      | (Raise e, w') \<Rightarrow> (Raise e, w'))"

text \<open>A pure expression that may raise, such as \<open>response.json()["id"]\<close>.\<close>

definition eval_expr :: "exn + 'a \<Rightarrow> 'a prog" where
  "eval_expr r w = (case r of Inl e \<Rightarrow> (Raise e, w) | Inr v \<Rightarrow> (Normal v, w))"

text \<open>A sequence of statements: the first one that returns or raises ends it.\<close>

fun block :: "stmt list \<Rightarrow> stmt" where
  "block [] w = (Normal (), w)"
| "block (s # ss) w =
     (case s w of
        (Normal u, w') \<Rightarrow> block ss w'
      | (Return j, w') \<Rightarrow> (Return j, w')
      | (Raise e, w') \<Rightarrow> (Raise e, w'))"

text \<open>
  \<open>try: body except ...: handler\<close>. The except clauses are a function that gives the
  handler of the first clause matching the exception, or \<open>None\<close> when no clause matches
  and the exception propagates.
\<close>

definition try_except :: "'a prog \<Rightarrow> (exn \<Rightarrow> 'a prog option) \<Rightarrow> 'a prog" where
  "try_except body clauses w =
     (case body w of
        (Raise e, w') \<Rightarrow>
          (case clauses e of Some handler \<Rightarrow> handler w' | None \<Rightarrow> (Raise e, w'))
      | (Normal v, w') \<Rightarrow> (Normal v, w')
      | (Return j, w') \<Rightarrow> (Return j, w'))"

text \<open>\<open>except httpx.RequestError:\<close>\<close>

definition except_RequestError :: "'a prog \<Rightarrow> exn \<Rightarrow> 'a prog option" where
  "except_RequestError handler e =
     (case e of RequestError r \<Rightarrow> Some handler | _ \<Rightarrow> None)"

text \<open>
  \<open>with tracer.start_as_current_span(name) as span: body\<close>. Entering starts span number
  \<open>span_seq\<close> as a child of the current span and makes it current; leaving, on every
  kind of completion, ends the span and restores the context that was current on entry.
  The server span that the framework instrumentation keeps around the whole handler is
  outside the model, so a handler's first span has no parent here. \<open>SetStatus\<close> events
  are the handler's own \<open>set_status\<close> calls; what the SDK writes by itself on a span
  that an exception leaves is not modelled.
\<close>

definition with_span :: "string \<Rightarrow> (nat \<Rightarrow> 'a prog) \<Rightarrow> 'a prog" where
  "with_span name body w =
     (let i = span_seq w;
          parent = (case active w of [] \<Rightarrow> None | p # ps \<Rightarrow> Some p);
          entered = w\<lparr>events := events w @ [SpanStart i name parent],
                      span_seq := Suc i,
                      active := i # active w\<rparr>
      in case body i entered of
           (c, w') \<Rightarrow> (c, w'\<lparr>events := events w' @ [SpanEnd i], active := active w\<rparr>))"

definition emit :: "event \<Rightarrow> stmt" where
  "emit e w = (Normal (), w\<lparr>events := events w @ [e]\<rparr>)"

definition set_attribute :: "nat \<Rightarrow> string \<Rightarrow> attr \<Rightarrow> stmt" where
  "set_attribute span k v = emit (SetAttribute span k v)"

definition set_status :: "nat \<Rightarrow> string \<Rightarrow> stmt" where
  "set_status span msg = emit (SetStatus span msg)"

definition counter_add :: "string \<Rightarrow> int \<Rightarrow> (string \<times> string) list \<Rightarrow> stmt" where
  "counter_add instrument delta tags = emit (CounterAdd instrument delta tags)"

definition histogram_record :: "string \<Rightarrow> (string \<times> string) list \<Rightarrow> stmt" where
  "histogram_record instrument tags = emit (HistogramRecord instrument tags)"

text \<open>
  \<open>await client.post(...)\<close> / \<open>await client.get(...)\<close>: the call is logged, and the
  collaborator either responds or the call raises \<open>httpx.RequestError\<close>. The
  \<open>async with httpx.AsyncClient() as client\<close> around each call only opens and closes the
  client and has no counterpart here.
\<close>

definition http_call :: "net \<Rightarrow> http_request \<Rightarrow> response prog" where
  "http_call nw req w =
     (let n = length (outbound w);
          w' = w\<lparr>outbound := outbound w @ [req]\<rparr>
      in case nw n of
           Responds r \<Rightarrow> (Normal r, w')
         | Fails e \<Rightarrow> (Raise (RequestError e), w'))"

text \<open>\<open>response.json()\<close>\<close>

definition json_of :: "response \<Rightarrow> exn + json" where
  "json_of r = (case content r of None \<Rightarrow> Inl JSONDecodeError | Some j \<Rightarrow> Inr j)"

text \<open>\<open>value["key"]\<close>: a dict without the key raises KeyError, any other value TypeError.\<close>

definition subscript :: "json \<Rightarrow> string \<Rightarrow> exn + json" where
  "subscript j k =
     (case j of
        JObj kvs \<Rightarrow> (case map_of kvs k of None \<Rightarrow> Inl (KeyError k) | Some v \<Rightarrow> Inr v)
      | _ \<Rightarrow> Inl TypeError)"

text \<open>\<open>value.get(key, default)\<close>: only a dict has \<open>get\<close>.\<close>

definition dict_get :: "json \<Rightarrow> string \<Rightarrow> json \<Rightarrow> exn + json" where
  "dict_get j k d =
     (case j of
        JObj kvs \<Rightarrow> (case map_of kvs k of None \<Rightarrow> Inr d | Some v \<Rightarrow> Inr v)
      | _ \<Rightarrow> Inl AttributeError)"

text \<open>Python truthiness of an optional header (\<open>not authorization\<close>) and of a JSON value.\<close>

definition present :: "string option \<Rightarrow> bool" where
  "present h = (case h of None \<Rightarrow> False | Some s \<Rightarrow> s \<noteq> [])"

text \<open>The header's string, read only after \<open>present\<close> has been checked.\<close>

definition header_value :: "string option \<Rightarrow> string" where
  "header_value h = (case h of None \<Rightarrow> [] | Some s \<Rightarrow> s)"

fun truthy :: "json \<Rightarrow> bool" where
  "truthy JNull = False"
| "truthy (JBool b) = b"
| "truthy (JInt n) = (n \<noteq> 0)"
| "truthy (JStr s) = (s \<noteq> [])"
| "truthy (JArr xs) = (xs \<noteq> [])"
| "truthy (JObj kvs) = (kvs \<noteq> [])"

text \<open>A JSON value passed to \<open>span.set_attribute\<close>.\<close>

definition attr_of :: "json \<Rightarrow> attr" where
  "attr_of j = (case j of JStr s \<Rightarrow> AStr s | JInt n \<Rightarrow> AInt n | JBool b \<Rightarrow> ABool b | _ \<Rightarrow> AJson j)"

definition initial :: "database \<Rightarrow> world" where
  "initial db = \<lparr>events = [], span_seq = 0, active = [], outbound = [], tables = db\<rparr>"

definition no_tables :: database where
  "no_tables = \<lparr>users = Map.empty, items = []\<rparr>"

text \<open>
  Running a handler for one request of the app or auth service: a fresh task-local
  context, no telemetry yet.
\<close>

definition run :: "'a prog \<Rightarrow> 'a completion \<times> world" where
  "run p = p (initial no_tables)"

section \<open>app.py\<close>

text \<open>
  The token check, lines 40-56 of \<open>create_data\<close>, repeated verbatim in \<open>get_data\<close>,
  \<open>get_preset_data\<close>, \<open>list_presets\<close> and \<open>seed_preset_data\<close>. \<open>span\<close> is the handler's
  root span.
\<close>

definition validate_request :: "string \<Rightarrow> http_request" where
  "validate_request authorization =
     \<lparr>http_method = ''POST'', target = AuthService, path = ''/validate'', path_arg = None,
      headers = [(''Authorization'', authorization)], json_body = None, timeout = 5\<rparr>"

definition validate_token_span :: "net \<Rightarrow> string \<Rightarrow> nat \<Rightarrow> stmt" where
  "validate_token_span nw authorization span =
     with_span ''app.validate_token'' (\<lambda>auth_span. block [
       set_attribute auth_span ''service'' (AStr ''auth-service''),
       try_except
         (and_then (http_call nw (validate_request authorization)) (\<lambda>auth_response.
            if status_code auth_response \<noteq> 200 then block [
              set_status auth_span ''Invalid token'',
              set_status span ''Invalid token'',
              raise_exn (HTTPException 401 ''Invalid token'')]
            else pass))
         (except_RequestError (block [
            set_status auth_span ''Auth service unavailable'',
            set_status span ''Auth service unavailable'',
            raise_exn (HTTPException 503 ''Auth service unavailable'')]))])"

text \<open>The check of the header, the same four lines in every handler.\<close>

definition require_authorization :: "string option \<Rightarrow> nat \<Rightarrow> stmt" where
  "require_authorization authorization span =
     (if \<not> present authorization then block [
        set_status span ''Missing authorization'',
        raise_exn (HTTPException 401 ''Missing authorization header'')]
      else pass)"

text \<open>\<open>data: dict\<close>: the framework hands the handler a JSON object.\<close>

definition store_request :: "json \<Rightarrow> string \<Rightarrow> http_request" where
  "store_request data authorization =
     \<lparr>http_method = ''POST'', target = DbService, path = ''/store'', path_arg = None,
      headers = [(''Authorization'', authorization)], json_body = Some data, timeout = 5\<rparr>"

definition create_data :: "net \<Rightarrow> (string \<times> json) list \<Rightarrow> string option \<Rightarrow> stmt" where
  "create_data nw data authorization = block [
     counter_add ''http_requests_total'' 1 [(''method'', ''POST''), (''endpoint'', ''/api/data'')],
     with_span ''app.create_data'' (\<lambda>span. block [
       set_attribute span ''http.method'' (AStr ''POST''),
       set_attribute span ''http.route'' (AStr ''/api/data''),
       require_authorization authorization span,
       validate_token_span nw (header_value authorization) span,
       with_span ''app.store_data'' (\<lambda>db_span. block [
         set_attribute db_span ''service'' (AStr ''db-service''),
         try_except
           (and_then (http_call nw (store_request (JObj data) (header_value authorization))) (\<lambda>db_response. block [
              (if status_code db_response \<noteq> 200 then block [
                 set_status db_span ''Database operation failed'',
                 set_status span ''Database operation failed'',
                 raise_exn (HTTPException 500 ''Database operation failed'')]
               else pass),
              and_then (eval_expr (json_of db_response)) (\<lambda>result.
              and_then (eval_expr (dict_get result ''id'' (JStr ''''))) (\<lambda>item_id. block [
                set_attribute span ''item.id'' (attr_of item_id),
                histogram_record ''http_request_duration_seconds''
                  [(''method'', ''POST''), (''endpoint'', ''/api/data''), (''status'', ''200'')],
                return_val result]))]))
           (except_RequestError (block [
              set_status db_span ''Database service unavailable'',
              set_status span ''Database service unavailable'',
              raise_exn (HTTPException 503 ''Database service unavailable'')]))])])]"

definition retrieve_request :: "string \<Rightarrow> string \<Rightarrow> http_request" where
  "retrieve_request item_id authorization =
     \<lparr>http_method = ''GET'', target = DbService, path = ''/retrieve/'',
      path_arg = Some (JStr item_id),
      headers = [(''Authorization'', authorization)], json_body = None, timeout = 5\<rparr>"

definition get_data :: "net \<Rightarrow> string \<Rightarrow> string option \<Rightarrow> stmt" where
  "get_data nw item_id authorization = block [
     counter_add ''http_requests_total'' 1 [(''method'', ''GET''), (''endpoint'', ''/api/data/{id}'')],
     with_span ''app.get_data'' (\<lambda>span. block [
       set_attribute span ''http.method'' (AStr ''GET''),
       set_attribute span ''http.route'' (AStr ''/api/data/{item_id}''),
       set_attribute span ''item.id'' (AStr item_id),
       require_authorization authorization span,
       validate_token_span nw (header_value authorization) span,
       with_span ''app.retrieve_data'' (\<lambda>db_span. block [
         set_attribute db_span ''service'' (AStr ''db-service''),
         try_except
           (and_then (http_call nw (retrieve_request item_id (header_value authorization))) (\<lambda>db_response. block [
              (if status_code db_response = 404 then block [
                 set_status db_span ''Item not found'',
                 set_status span ''Item not found'',
                 raise_exn (HTTPException 404 ''Item not found'')]
               else pass),
              (if status_code db_response \<noteq> 200 then block [
                 set_status db_span ''Database operation failed'',
                 set_status span ''Database operation failed'',
                 raise_exn (HTTPException 500 ''Database operation failed'')]
               else pass),
              and_then (eval_expr (json_of db_response)) (\<lambda>result. block [
                histogram_record ''http_request_duration_seconds''
                  [(''method'', ''GET''), (''endpoint'', ''/api/data/{id}''), (''status'', ''200'')],
                return_val result])]))
           (except_RequestError (block [
              set_status db_span ''Database service unavailable'',
              set_status span ''Database service unavailable'',
              raise_exn (HTTPException 503 ''Database service unavailable'')]))])])]"

definition preset_data :: "(string \<times> json) list" where
  "preset_data =
     [(''welcome'', JObj [(''message'', JStr ''Welcome to the microservices application''),
                          (''version'', JStr ''1.0'')]),
      (''status'', JObj [(''services'', JArr [JStr ''app'', JStr ''auth'', JStr ''db'']),
                         (''status'', JStr ''operational'')]),
      (''info'', JObj [(''description'', JStr ''This is a microservices demo with OpenTelemetry''),
                       (''author'', JStr ''CNIT48101 Team'')])]"

text \<open>
  The detail of the 404 of \<open>get_preset_data\<close>, an f-string around \<open>preset_id\<close> and the
  printed list of keys.
\<close>

definition preset_not_found_detail :: "string \<Rightarrow> string" where
  "preset_not_found_detail preset_id =
     ''Preset '' @ [CHR 0x27] @ preset_id @ [CHR 0x27] @ '' not found. Available: [''
       @ [CHR 0x27] @ ''welcome'' @ [CHR 0x27] @ '', ''
       @ [CHR 0x27] @ ''status'' @ [CHR 0x27] @ '', ''
       @ [CHR 0x27] @ ''info'' @ [CHR 0x27] @ '']''"

definition get_preset_data :: "net \<Rightarrow> string \<Rightarrow> string option \<Rightarrow> stmt" where
  "get_preset_data nw preset_id authorization = block [
     counter_add ''http_requests_total'' 1 [(''method'', ''GET''), (''endpoint'', ''/api/preset/{id}'')],
     with_span ''app.get_preset'' (\<lambda>span. block [
       set_attribute span ''http.method'' (AStr ''GET''),
       set_attribute span ''http.route'' (AStr ''/api/preset/{preset_id}''),
       set_attribute span ''preset.id'' (AStr preset_id),
       require_authorization authorization span,
       validate_token_span nw (header_value authorization) span,
       (case map_of preset_data preset_id of
          Some entry \<Rightarrow> block [
            set_attribute span ''preset.found'' (ABool True),
            histogram_record ''http_request_duration_seconds''
              [(''method'', ''GET''), (''endpoint'', ''/api/preset/{id}''), (''status'', ''200'')],
            return_val (JObj [(''preset_id'', JStr preset_id), (''data'', entry)])]
        | None \<Rightarrow> block [
            set_status span ''Preset not found'',
            raise_exn (HTTPException 404 (preset_not_found_detail preset_id))])])]"

definition list_presets :: "net \<Rightarrow> string option \<Rightarrow> stmt" where
  "list_presets nw authorization = block [
     counter_add ''http_requests_total'' 1 [(''method'', ''GET''), (''endpoint'', ''/api/presets'')],
     with_span ''app.list_presets'' (\<lambda>span. block [
       set_attribute span ''http.method'' (AStr ''GET''),
       set_attribute span ''http.route'' (AStr ''/api/presets''),
       require_authorization authorization span,
       validate_token_span nw (header_value authorization) span,
       histogram_record ''http_request_duration_seconds''
         [(''method'', ''GET''), (''endpoint'', ''/api/presets''), (''status'', ''200'')],
       return_val (JObj [
         (''available_presets'', JArr [JStr ''welcome'', JStr ''status'', JStr ''info'']),
         (''description'', JStr ''Use /api/preset/{preset_id} to retrieve specific preset data'')])])]"

definition seed_items :: "json list" where
  "seed_items =
     [JObj [(''name'', JStr ''Sample Item 1''), (''type'', JStr ''test''), (''value'', JInt 100)],
      JObj [(''name'', JStr ''Sample Item 2''), (''type'', JStr ''demo''), (''value'', JInt 200)],
      JObj [(''name'', JStr ''Sample Item 3''), (''type'', JStr ''example''), (''value'', JInt 300)]]"

text \<open>
  One turn of the loop of \<open>seed_preset_data\<close> (lines 279-293): the body of
  \<open>with tracer.start_as_current_span("app.seed_item")\<close>, giving the new \<open>stored_ids\<close>.
\<close>

definition seed_item :: "net \<Rightarrow> string \<Rightarrow> nat \<Rightarrow> json \<Rightarrow> json list \<Rightarrow> (json list) prog" where
  "seed_item nw authorization idx item stored_ids =
     with_span ''app.seed_item'' (\<lambda>item_span.
       and_then (set_attribute item_span ''item.index'' (AInt (int idx))) (\<lambda>u.
       try_except
         (and_then (http_call nw (store_request item authorization)) (\<lambda>db_response.
            if status_code db_response = 200 then
              and_then (eval_expr (json_of db_response)) (\<lambda>body.
              and_then (eval_expr (subscript body ''id'')) (\<lambda>item_id.
              and_then (set_attribute item_span ''item.id'' (attr_of item_id)) (\<lambda>u.
              unit_prog (stored_ids @ [item_id]))))
            else unit_prog stored_ids))
         (except_RequestError
            (and_then (set_status item_span ''Failed to store item'') (\<lambda>u.
             unit_prog stored_ids)))))"

text \<open>\<open>for idx, item in enumerate(seed_items):\<close>\<close>

fun seed_loop :: "net \<Rightarrow> string \<Rightarrow> (nat \<times> json) list \<Rightarrow> json list \<Rightarrow> (json list) prog" where
  "seed_loop nw authorization [] stored_ids w = (Normal stored_ids, w)"
| "seed_loop nw authorization ((idx, item) # rest) stored_ids w =
     (case seed_item nw authorization idx item stored_ids w of
        (Normal stored_ids', w') \<Rightarrow> seed_loop nw authorization rest stored_ids' w'
      | (Return j, w') \<Rightarrow> (Return j, w')
      | (Raise e, w') \<Rightarrow> (Raise e, w'))"

definition seed_preset_data :: "net \<Rightarrow> string option \<Rightarrow> stmt" where
  "seed_preset_data nw authorization = block [
     counter_add ''http_requests_total'' 1 [(''method'', ''POST''), (''endpoint'', ''/api/seed'')],
     with_span ''app.seed_data'' (\<lambda>span. block [
       set_attribute span ''http.method'' (AStr ''POST''),
       set_attribute span ''http.route'' (AStr ''/api/seed''),
       require_authorization authorization span,
       validate_token_span nw (header_value authorization) span,
       and_then
         (with_span ''app.seed_items'' (\<lambda>seed_span.
            and_then (set_attribute seed_span ''items.count'' (AInt (int (length seed_items)))) (\<lambda>u.
            seed_loop nw (header_value authorization) (enumerate 0 seed_items) [])))
         (\<lambda>stored_ids. block [
            set_attribute span ''items.created'' (AInt (int (length stored_ids))),
            histogram_record ''http_request_duration_seconds''
              [(''method'', ''POST''), (''endpoint'', ''/api/seed''), (''status'', ''200'')],
            return_val (JObj [
              (''status'', JStr ''seeded''),
              (''items_created'', JInt (int (length stored_ids))),
              (''item_ids'', JArr stored_ids)])])])]"

text \<open>
  The five authenticated endpoints of the app service, with the arguments the framework
  binds from the request (body, path parameter); the \<open>Authorization\<close> header is passed
  beside them.
\<close>

datatype app_call =
    Create_data "(string \<times> json) list"
  | Get_data string
  | Get_preset_data string
  | List_presets
  | Seed_preset_data

fun app_handler :: "net \<Rightarrow> app_call \<Rightarrow> string option \<Rightarrow> stmt" where
  "app_handler nw (Create_data data) authorization = create_data nw data authorization"
| "app_handler nw (Get_data item_id) authorization = get_data nw item_id authorization"
| "app_handler nw (Get_preset_data preset_id) authorization = get_preset_data nw preset_id authorization"
| "app_handler nw List_presets authorization = list_presets nw authorization"
| "app_handler nw Seed_preset_data authorization = seed_preset_data nw authorization"

section \<open>baseline/app.py\<close>

text \<open>
  The uninstrumented \<open>get_data\<close>: the same calls, no tracer and no meter. Its two
  \<open>try\<close> blocks are in sequence, as in the source.
\<close>

definition baseline_get_data :: "net \<Rightarrow> string \<Rightarrow> string option \<Rightarrow> stmt" where
  "baseline_get_data nw item_id authorization = block [
     (if \<not> present authorization then
        raise_exn (HTTPException 401 ''Missing authorization header'')
      else pass),
     try_except
       (and_then (http_call nw (validate_request (header_value authorization))) (\<lambda>auth_response.
          if status_code auth_response \<noteq> 200 then
            raise_exn (HTTPException 401 ''Invalid token'')
          else pass))
       (except_RequestError (raise_exn (HTTPException 503 ''Auth service unavailable''))),
     try_except
       (and_then (http_call nw (retrieve_request item_id (header_value authorization))) (\<lambda>db_response. block [
          (if status_code db_response = 404 then
             raise_exn (HTTPException 404 ''Item not found'')
           else pass),
          (if status_code db_response \<noteq> 200 then
             raise_exn (HTTPException 500 ''Database operation failed'')
           else pass),
          and_then (eval_expr (json_of db_response)) (\<lambda>result. return_val result)]))
       (except_RequestError (raise_exn (HTTPException 503 ''Database service unavailable'')))]"

section \<open>auth.py\<close>

text \<open>
  The JWT library is an opaque signing primitive: \<open>jwt.encode\<close> gives a token for a
  payload, \<open>jwt.decode\<close> gives the payload (a JSON object) or raises. \<open>utcnow\<close> is the
  clock, in seconds.
\<close>

record jwt_lib =
  encode :: "json \<Rightarrow> string"
  decode :: "string \<Rightarrow> jwt_error + (string \<times> json) list"
  utcnow :: int

definition TOKEN_EXPIRY_MINUTES :: int where
  "TOKEN_EXPIRY_MINUTES = 30"

text \<open>
  \<open>a != b\<close> on JSON values. Python identifies \<open>True\<close> with 1 and \<open>False\<close> with 0;
  containers are compared structurally here (Python also ignores the key order of dicts).
\<close>

definition py_ne :: "json \<Rightarrow> json \<Rightarrow> bool" where
  "py_ne a b =
     (case (a, b) of
        (JBool x, JInt n) \<Rightarrow> n \<noteq> (if x then 1 else 0)
      | (JInt n, JBool x) \<Rightarrow> n \<noteq> (if x then 1 else 0)
      | _ \<Rightarrow> a \<noteq> b)"

definition user_request :: "json \<Rightarrow> http_request" where
  "user_request username =
     \<lparr>http_method = ''GET'', target = DbService, path = ''/user/'', path_arg = Some username,
      headers = [], json_body = None, timeout = 5\<rparr>"

definition login :: "net \<Rightarrow> jwt_lib \<Rightarrow> (string \<times> json) list \<Rightarrow> stmt" where
  "login nw lib credentials = block [
     counter_add ''http_requests_total'' 1 [(''method'', ''POST''), (''endpoint'', ''/login'')],
     with_span ''auth.login'' (\<lambda>span. block [
       set_attribute span ''http.method'' (AStr ''POST''),
       set_attribute span ''http.route'' (AStr ''/login''),
       and_then (eval_expr (dict_get (JObj credentials) ''username'' JNull)) (\<lambda>username.
       and_then (eval_expr (dict_get (JObj credentials) ''password'' JNull)) (\<lambda>password. block [
         (if \<not> truthy username \<or> \<not> truthy password then block [
            set_status span ''Missing credentials'',
            raise_exn (HTTPException 401 ''Username and password required'')]
          else pass),
         set_attribute span ''user.username'' (attr_of username),
         with_span ''auth.validate_credentials'' (\<lambda>db_span. block [
           set_attribute db_span ''service'' (AStr ''db-service''),
           try_except
             (and_then (http_call nw (user_request username)) (\<lambda>db_response. block [
                (if status_code db_response \<noteq> 200 then block [
                   set_status db_span ''User not found'',
                   set_status span ''Invalid credentials'',
                   raise_exn (HTTPException 401 ''Invalid credentials'')]
                 else pass),
                and_then (eval_expr (json_of db_response)) (\<lambda>user_data.
                and_then (eval_expr (dict_get user_data ''password'' JNull)) (\<lambda>stored. block [
                  (if py_ne stored password then block [
                     set_status db_span ''Invalid password'',
                     set_status span ''Invalid credentials'',
                     raise_exn (HTTPException 401 ''Invalid credentials'')]
                   else pass),
                  with_span ''auth.generate_token'' (\<lambda>token_span. block [
                    set_attribute token_span ''token.expires_in_minutes'' (AInt TOKEN_EXPIRY_MINUTES),
                    set_attribute span ''auth.success'' (ABool True),
                    histogram_record ''http_request_duration_seconds''
                      [(''method'', ''POST''), (''endpoint'', ''/login''), (''status'', ''200'')],
                    return_val (JObj [
                      (''token'', JStr (encode lib (JObj [
                         (''username'', username),
                         (''exp'', JInt (utcnow lib + TOKEN_EXPIRY_MINUTES * 60)),
                         (''iat'', JInt (utcnow lib))]))),
                      (''expires_in'', JInt (TOKEN_EXPIRY_MINUTES * 60))])])]))]))
             (except_RequestError (block [
                set_status db_span ''Database service unavailable'',
                set_status span ''Database service unavailable'',
                raise_exn (HTTPException 503 ''Database service unavailable'')]))])]))])]"

text \<open>\<open>s.split(" ")\<close>: every single space separates, empty pieces are kept.\<close>

fun split_on :: "char \<Rightarrow> string \<Rightarrow> string list" where
  "split_on c [] = [[]]"
| "split_on c (x # xs) =
     (if x = c then [] # split_on c xs
      else (case split_on c xs of [] \<Rightarrow> [[x]] | p # ps \<Rightarrow> (x # p) # ps))"

definition subscript_list :: "'a list \<Rightarrow> nat \<Rightarrow> exn + 'a" where
  "subscript_list xs i = (if i < length xs then Inr (xs ! i) else Inl IndexError)"

definition startswith :: "string \<Rightarrow> string \<Rightarrow> bool" where
  "startswith s p = (take (length p) s = p)"

text \<open>The token of a header in "Bearer <token>" format, or the header itself.\<close>

definition bearer_token :: "string \<Rightarrow> exn + string" where
  "bearer_token authorization =
     (if startswith authorization ''Bearer ''
      then subscript_list (split_on CHR '' '' authorization) 1
      else Inr authorization)"

text \<open>
  The except clauses for the jwt exceptions, in the source's order:
  \<open>ExpiredSignatureError\<close> first, then its base class \<open>InvalidTokenError\<close>.
\<close>

definition except_jwt :: "nat \<Rightarrow> exn \<Rightarrow> stmt option" where
  "except_jwt span e =
     (case e of
        JwtError ExpiredSignatureError \<Rightarrow> Some (block [
          set_status span ''Token expired'',
          raise_exn (HTTPException 401 ''Token expired'')])
      | JwtError (InvalidTokenError msg) \<Rightarrow> Some (block [
          set_status span (''Invalid token: '' @ msg),
          raise_exn (HTTPException 401 ''Invalid token'')])
      | _ \<Rightarrow> None)"

definition jwt_decode :: "jwt_lib \<Rightarrow> string \<Rightarrow> exn + (string \<times> json) list" where
  "jwt_decode lib token = (case decode lib token of Inl e \<Rightarrow> Inl (JwtError e) | Inr p \<Rightarrow> Inr p)"

definition payload_get :: "(string \<times> json) list \<Rightarrow> string \<Rightarrow> json" where
  "payload_get payload k = (case map_of payload k of None \<Rightarrow> JNull | Some v \<Rightarrow> v)"

definition validate_token :: "jwt_lib \<Rightarrow> string option \<Rightarrow> stmt" where
  "validate_token lib authorization = block [
     counter_add ''http_requests_total'' 1 [(''method'', ''POST''), (''endpoint'', ''/validate'')],
     with_span ''auth.validate_token'' (\<lambda>span. block [
       set_attribute span ''http.method'' (AStr ''POST''),
       set_attribute span ''http.route'' (AStr ''/validate''),
       (if \<not> present authorization then block [
          set_status span ''Missing authorization header'',
          raise_exn (HTTPException 401 ''Missing authorization header'')]
        else pass),
       and_then
         (try_except (eval_expr (bearer_token (header_value authorization)))
            (\<lambda>e. case e of
               IndexError \<Rightarrow> Some (and_then (set_status span ''Invalid authorization format'') (\<lambda>u.
                 raise_exn (HTTPException 401 ''Invalid authorization format'')))
             | _ \<Rightarrow> None))
         (\<lambda>token.
       try_except
         (with_span ''auth.decode_token'' (\<lambda>decode_span.
            and_then (eval_expr (jwt_decode lib token)) (\<lambda>payload. block [
              set_attribute decode_span ''user.username'' (attr_of (payload_get payload ''username'')),
              set_attribute span ''user.username'' (attr_of (payload_get payload ''username'')),
              set_attribute span ''auth.valid'' (ABool True),
              histogram_record ''http_request_duration_seconds''
                [(''method'', ''POST''), (''endpoint'', ''/validate''), (''status'', ''200'')],
              return_val (JObj [
                (''valid'', JBool True),
                (''username'', payload_get payload ''username''),
                (''expires_at'', payload_get payload ''exp'')])])))
         (except_jwt span))])]"

definition token_info :: "jwt_lib \<Rightarrow> string option \<Rightarrow> stmt" where
  "token_info lib authorization = block [
     counter_add ''http_requests_total'' 1 [(''method'', ''GET''), (''endpoint'', ''/token/info'')],
     with_span ''auth.token_info'' (\<lambda>span. block [
       set_attribute span ''http.method'' (AStr ''GET''),
       set_attribute span ''http.route'' (AStr ''/token/info''),
       (if \<not> present authorization then block [
          set_status span ''Missing authorization header'',
          raise_exn (HTTPException 401 ''Missing authorization header'')]
        else pass),
       try_except
         (and_then (eval_expr (bearer_token (header_value authorization))) (\<lambda>token.
          with_span ''auth.decode_token'' (\<lambda>decode_span.
            and_then (eval_expr (jwt_decode lib token)) (\<lambda>payload. block [
              set_attribute decode_span ''user.username'' (attr_of (payload_get payload ''username'')),
              set_attribute span ''user.username'' (attr_of (payload_get payload ''username'')),
              histogram_record ''http_request_duration_seconds''
                [(''method'', ''GET''), (''endpoint'', ''/token/info''), (''status'', ''200'')],
              return_val (JObj [
                (''username'', payload_get payload ''username''),
                (''issued_at'', payload_get payload ''iat''),
                (''expires_at'', payload_get payload ''exp'')])]))))
         (except_jwt span)])]"

datatype auth_call =
    Login "(string \<times> json) list"
  | Validate_token "string option"
  | Token_info "string option"

fun auth_handler :: "net \<Rightarrow> jwt_lib \<Rightarrow> auth_call \<Rightarrow> stmt" where
  "auth_handler nw lib (Login credentials) = login nw lib credentials"
| "auth_handler nw lib (Validate_token authorization) = validate_token lib authorization"
| "auth_handler nw lib (Token_info authorization) = token_info lib authorization"

section \<open>db.py\<close>

text \<open>
  What the db service takes from outside one request: whether \<open>get_db_connection()\<close>
  fails, whether SQLite fails while executing the statement (a locked or damaged file),
  the value of \<open>uuid.uuid4()\<close> and the clock. \<open>inject_latency()\<close> only sleeps and
  has no counterpart here.
\<close>

record db_env =
  connect_fault :: "string option"
  sql_fault :: "string option"
  uuid4 :: string
  now :: nat

text \<open>
  \<open>try: body finally: cleanup\<close>: the cleanup runs on every completion of the body, and
  the body's completion stands unless the cleanup itself returns or raises.
\<close>

definition try_finally :: "'a prog \<Rightarrow> stmt \<Rightarrow> 'a prog" where
  "try_finally body cleanup w =
     (case body w of
        (c, w') \<Rightarrow>
          (case cleanup w' of
             (Normal u, w'') \<Rightarrow> (c, w'')
           | (Return j, w'') \<Rightarrow> (Return j, w'')
           | (Raise e, w'') \<Rightarrow> (Raise e, w'')))"

text \<open>\<open>conn = get_db_connection()\<close>, outside every \<open>try\<close>.\<close>

definition get_db_connection :: "db_env \<Rightarrow> stmt" where
  "get_db_connection env =
     (case connect_fault env of
        Some msg \<Rightarrow> raise_exn (SqliteError OperationalError msg)
      | None \<Rightarrow> pass)"

text \<open>\<open>conn.close()\<close> and \<open>conn.rollback()\<close> leave the tables as they are.\<close>

definition conn_close :: stmt where
  "conn_close = pass"

definition conn_rollback :: stmt where
  "conn_rollback = pass"

text \<open>
  \<open>cursor.execute(...)\<close> followed by \<open>conn.commit()\<close> where the source commits: the
  statement is a function on the tables that may raise; a fault of the engine raises
  \<open>sqlite3.OperationalError\<close> and changes nothing.
\<close>

definition execute :: "db_env \<Rightarrow> (database \<Rightarrow> exn + 'a \<times> database) \<Rightarrow> 'a prog" where
  "execute env statement w =
     (case sql_fault env of
        Some msg \<Rightarrow> (Raise (SqliteError OperationalError msg), w)
      | None \<Rightarrow>
          (case statement (tables w) of
             Inl e \<Rightarrow> (Raise e, w)
           | Inr (v, db) \<Rightarrow> (Normal v, w\<lparr>tables := db\<rparr>)))"

definition insert_item :: "item_row \<Rightarrow> database \<Rightarrow> exn + unit \<times> database" where
  "insert_item r db =
     (if row_id r \<in> set (map row_id (items db))
      then Inl (SqliteError IntegrityError ''UNIQUE constraint failed: items.id'')
      else Inr ((), db\<lparr>items := items db @ [r]\<rparr>))"

definition select_item :: "string \<Rightarrow> database \<Rightarrow> exn + item_row option \<times> database" where
  "select_item item_id db = Inr (find (\<lambda>r. row_id r = item_id) (items db), db)"

text \<open>
  \<open>ORDER BY created_at DESC LIMIT ?\<close>: newest first; a negative limit is no limit.
  The order among rows of equal \<open>created_at\<close> is SQLite's choice; here it is the reverse of
  the insertion order.
\<close>

definition select_items :: "int \<Rightarrow> database \<Rightarrow> exn + item_row list \<times> database" where
  "select_items limit db =
     (let ordered = rev (sort_key created_at (items db))
      in Inr (if limit < 0 then ordered else take (nat limit) ordered, db))"

text \<open>\<open>DELETE FROM items WHERE id = ?\<close>, giving \<open>cursor.rowcount\<close>.\<close>

definition delete_item :: "string \<Rightarrow> database \<Rightarrow> exn + nat \<times> database" where
  "delete_item item_id db =
     Inr (length (filter (\<lambda>r. row_id r = item_id) (items db)),
          db\<lparr>items := filter (\<lambda>r. row_id r \<noteq> item_id) (items db)\<rparr>)"

definition select_user :: "string \<Rightarrow> database \<Rightarrow> exn + (string \<times> string) option \<times> database" where
  "select_user username db =
     Inr (case users db username of None \<Rightarrow> None | Some password \<Rightarrow> Some (username, password), db)"

text \<open>Decimal digits, for an integer bound to a TEXT column.\<close>

function dec :: "nat \<Rightarrow> string" where
  "dec n = (if n < 10 then [char_of (48 + n)] else dec (n div 10) @ [char_of (48 + n mod 10)])"
  by pat_completeness auto
termination
  by (relation "measure id") auto

text \<open>
  A JSON value bound to a parameter of a TEXT column: a string is stored as it is, an
  integer (and a bool, which is an integer) as its digits; sqlite3 refuses a list or a
  dict with an error. \<open>None\<close> never reaches a parameter (\<open>create_user\<close> checks both
  values first); it is refused here.
\<close>

definition bind_text :: "json \<Rightarrow> exn + string" where
  "bind_text j =
     (case j of
        JStr s \<Rightarrow> Inr s
      | JInt i \<Rightarrow> Inr (if i < 0 then CHR ''-'' # dec (nat (- i)) else dec (nat i))
      | JBool b \<Rightarrow> Inr (if b then ''1'' else ''0'')
      | JNull \<Rightarrow> Inl (SqliteError IntegrityError ''NOT NULL constraint failed'')
      | _ \<Rightarrow> Inl (SqliteError OperationalError ''Error binding parameter''))"

definition insert_user :: "json \<Rightarrow> json \<Rightarrow> database \<Rightarrow> exn + unit \<times> database" where
  "insert_user username password db =
     (case bind_text username of
        Inl e \<Rightarrow> Inl e
      | Inr u \<Rightarrow>
          (case bind_text password of
             Inl e \<Rightarrow> Inl e
           | Inr p \<Rightarrow>
               (if users db u \<noteq> None
                then Inl (SqliteError IntegrityError ''UNIQUE constraint failed: users.username'')
                else Inr ((), db\<lparr>users := (users db)(u \<mapsto> p)\<rparr>))))"

text \<open>\<open>except sqlite3.Error as e:\<close> with the handler given the text of \<open>e\<close>.\<close>

definition except_sqlite_Error :: "(string \<Rightarrow> 'a prog) \<Rightarrow> exn \<Rightarrow> 'a prog option" where
  "except_sqlite_Error handler e =
     (case e of SqliteError kind msg \<Rightarrow> Some (handler msg) | _ \<Rightarrow> None)"

text \<open>
  \<open>json.loads(row["data"])\<close> with the fallback of the \<open>except json.JSONDecodeError\<close>
  clause: the raw text.
\<close>

definition loads_or_raw :: "column_text \<Rightarrow> json" where
  "loads_or_raw t = (case t of Dumped j \<Rightarrow> j | Raw s \<Rightarrow> JStr s)"

definition row_json :: "item_row \<Rightarrow> json" where
  "row_json r = JObj [
     (''id'', JStr (row_id r)),
     (''data'', loads_or_raw (row_data r)),
     (''created_at'', JInt (int (created_at r))),
     (''updated_at'', JInt (int (updated_at r)))]"

definition store_data :: "db_env \<Rightarrow> (string \<times> json) list \<Rightarrow> string option \<Rightarrow> stmt" where
  "store_data env data authorization = block [
     counter_add ''http_requests_total'' 1 [(''method'', ''POST''), (''endpoint'', ''/store'')],
     counter_add ''db_operations_total'' 1 [(''operation'', ''insert''), (''table'', ''items'')],
     with_span ''db.store_data'' (\<lambda>span. block [
       set_attribute span ''http.method'' (AStr ''POST''),
       set_attribute span ''http.route'' (AStr ''/store''),
       set_attribute span ''db.operation'' (AStr ''insert''),
       set_attribute span ''db.table'' (AStr ''items''),
       (if \<not> present authorization then block [
          set_status span ''Missing authorization'',
          raise_exn (HTTPException 401 ''Missing authorization header'')]
        else pass),
       set_attribute span ''item.id'' (AStr (uuid4 env)),
       get_db_connection env,
       try_finally
         (try_except
            (block [
               with_span ''db.execute_insert'' (\<lambda>db_span. block [
                 and_then (execute env (insert_item
                   \<lparr>row_id = uuid4 env, row_data = Dumped (JObj data),
                    created_at = now env, updated_at = now env\<rparr>)) (\<lambda>u. pass),
                 set_attribute db_span ''db.rows_affected'' (AInt 1)]),
               histogram_record ''db_operation_duration_seconds''
                 [(''operation'', ''insert''), (''table'', ''items'')],
               histogram_record ''http_request_duration_seconds''
                 [(''method'', ''POST''), (''endpoint'', ''/store''), (''status'', ''200'')],
               return_val (JObj [
                 (''id'', JStr (uuid4 env)),
                 (''status'', JStr ''stored''),
                 (''created_at'', JInt (int (now env)))])])
            (except_sqlite_Error (\<lambda>msg. block [
               conn_rollback,
               set_status span (''Database error: '' @ msg),
               raise_exn (HTTPException 500 (''Database error: '' @ msg))])))
         conn_close])]"

definition retrieve_data :: "db_env \<Rightarrow> string \<Rightarrow> string option \<Rightarrow> stmt" where
  "retrieve_data env item_id authorization = block [
     counter_add ''http_requests_total'' 1 [(''method'', ''GET''), (''endpoint'', ''/retrieve/{id}'')],
     counter_add ''db_operations_total'' 1 [(''operation'', ''select''), (''table'', ''items'')],
     with_span ''db.retrieve_data'' (\<lambda>span. block [
       set_attribute span ''http.method'' (AStr ''GET''),
       set_attribute span ''http.route'' (AStr ''/retrieve/{item_id}''),
       set_attribute span ''db.operation'' (AStr ''select''),
       set_attribute span ''db.table'' (AStr ''items''),
       set_attribute span ''item.id'' (AStr item_id),
       (if \<not> present authorization then block [
          set_status span ''Missing authorization'',
          raise_exn (HTTPException 401 ''Missing authorization header'')]
        else pass),
       get_db_connection env,
       try_finally
         (try_except
            (and_then
               (with_span ''db.execute_select'' (\<lambda>db_span.
                  and_then (execute env (select_item item_id)) (\<lambda>row.
                  and_then (set_attribute db_span ''db.rows_returned''
                              (AInt (if row \<noteq> None then 1 else 0))) (\<lambda>u.
                  unit_prog row))))
               (\<lambda>row.
                  case row of
                    None \<Rightarrow> block [
                      set_status span ''Item not found'',
                      raise_exn (HTTPException 404 ''Item not found'')]
                  | Some r \<Rightarrow> block [
                      histogram_record ''db_operation_duration_seconds''
                        [(''operation'', ''select''), (''table'', ''items'')],
                      histogram_record ''http_request_duration_seconds''
                        [(''method'', ''GET''), (''endpoint'', ''/retrieve/{id}''), (''status'', ''200'')],
                      return_val (row_json r)]))
            (except_sqlite_Error (\<lambda>msg. block [
               set_status span (''Database error: '' @ msg),
               raise_exn (HTTPException 500 (''Database error: '' @ msg))])))
         conn_close])]"

definition list_items :: "db_env \<Rightarrow> int \<Rightarrow> string option \<Rightarrow> stmt" where
  "list_items env limit authorization = block [
     counter_add ''http_requests_total'' 1 [(''method'', ''GET''), (''endpoint'', ''/list'')],
     counter_add ''db_operations_total'' 1 [(''operation'', ''select''), (''table'', ''items'')],
     with_span ''db.list_items'' (\<lambda>span. block [
       set_attribute span ''http.method'' (AStr ''GET''),
       set_attribute span ''http.route'' (AStr ''/list''),
       set_attribute span ''db.operation'' (AStr ''select''),
       set_attribute span ''db.table'' (AStr ''items''),
       set_attribute span ''db.limit'' (AInt limit),
       (if \<not> present authorization then block [
          set_status span ''Missing authorization'',
          raise_exn (HTTPException 401 ''Missing authorization header'')]
        else pass),
       get_db_connection env,
       try_finally
         (try_except
            (and_then
               (with_span ''db.execute_select'' (\<lambda>db_span.
                  and_then (execute env (select_items limit)) (\<lambda>rows.
                  and_then (set_attribute db_span ''db.rows_returned''
                              (AInt (int (length rows)))) (\<lambda>u.
                  unit_prog rows))))
               (\<lambda>rows. block [
                  set_attribute span ''items.count'' (AInt (int (length (map row_json rows)))),
                  histogram_record ''db_operation_duration_seconds''
                    [(''operation'', ''select''), (''table'', ''items'')],
                  histogram_record ''http_request_duration_seconds''
                    [(''method'', ''GET''), (''endpoint'', ''/list''), (''status'', ''200'')],
                  return_val (JObj [
                    (''items'', JArr (map row_json rows)),
                    (''count'', JInt (int (length (map row_json rows))))])]))
            (except_sqlite_Error (\<lambda>msg. block [
               set_status span (''Database error: '' @ msg),
               raise_exn (HTTPException 500 (''Database error: '' @ msg))])))
         conn_close])]"

definition delete_data :: "db_env \<Rightarrow> string \<Rightarrow> string option \<Rightarrow> stmt" where
  "delete_data env item_id authorization = block [
     counter_add ''http_requests_total'' 1 [(''method'', ''DELETE''), (''endpoint'', ''/delete/{id}'')],
     counter_add ''db_operations_total'' 1 [(''operation'', ''delete''), (''table'', ''items'')],
     with_span ''db.delete_data'' (\<lambda>span. block [
       set_attribute span ''http.method'' (AStr ''DELETE''),
       set_attribute span ''http.route'' (AStr ''/delete/{item_id}''),
       set_attribute span ''db.operation'' (AStr ''delete''),
       set_attribute span ''db.table'' (AStr ''items''),
       set_attribute span ''item.id'' (AStr item_id),
       (if \<not> present authorization then block [
          set_status span ''Missing authorization'',
          raise_exn (HTTPException 401 ''Missing authorization header'')]
        else pass),
       get_db_connection env,
       try_finally
         (try_except
            (and_then
               (with_span ''db.execute_delete'' (\<lambda>db_span.
                  and_then (execute env (delete_item item_id)) (\<lambda>rowcount.
                  and_then (set_attribute db_span ''db.rows_affected'' (AInt (int rowcount))) (\<lambda>u.
                  unit_prog rowcount))))
               (\<lambda>rowcount. block [
                  (if rowcount = 0 then block [
                     set_status span ''Item not found'',
                     raise_exn (HTTPException 404 ''Item not found'')]
                   else pass),
                  histogram_record ''db_operation_duration_seconds''
                    [(''operation'', ''delete''), (''table'', ''items'')],
                  histogram_record ''http_request_duration_seconds''
                    [(''method'', ''DELETE''), (''endpoint'', ''/delete/{id}''), (''status'', ''200'')],
                  return_val (JObj [(''id'', JStr item_id), (''status'', JStr ''deleted'')])]))
            (except_sqlite_Error (\<lambda>msg. block [
               conn_rollback,
               set_status span (''Database error: '' @ msg),
               raise_exn (HTTPException 500 (''Database error: '' @ msg))])))
         conn_close])]"

text \<open>\<open>get_user(username, request)\<close>: the signature has no \<open>authorization\<close> parameter.\<close>

definition get_user :: "db_env \<Rightarrow> string \<Rightarrow> stmt" where
  "get_user env username = block [
     counter_add ''http_requests_total'' 1 [(''method'', ''GET''), (''endpoint'', ''/user/{username}'')],
     counter_add ''db_operations_total'' 1 [(''operation'', ''select''), (''table'', ''users'')],
     with_span ''db.get_user'' (\<lambda>span. block [
       set_attribute span ''http.method'' (AStr ''GET''),
       set_attribute span ''http.route'' (AStr ''/user/{username}''),
       set_attribute span ''db.operation'' (AStr ''select''),
       set_attribute span ''db.table'' (AStr ''users''),
       set_attribute span ''user.username'' (AStr username),
       get_db_connection env,
       try_finally
         (try_except
            (and_then
               (with_span ''db.execute_select'' (\<lambda>db_span.
                  and_then (execute env (select_user username)) (\<lambda>row.
                  and_then (set_attribute db_span ''db.rows_returned''
                              (AInt (if row \<noteq> None then 1 else 0))) (\<lambda>u.
                  unit_prog row))))
               (\<lambda>row.
                  case row of
                    None \<Rightarrow> block [
                      set_status span ''User not found'',
                      raise_exn (HTTPException 404 ''User not found'')]
                  | Some (row_username, row_password) \<Rightarrow> block [
                      histogram_record ''db_operation_duration_seconds''
                        [(''operation'', ''select''), (''table'', ''users'')],
                      histogram_record ''http_request_duration_seconds''
                        [(''method'', ''GET''), (''endpoint'', ''/user/{username}''), (''status'', ''200'')],
                      return_val (JObj [
                        (''username'', JStr row_username),
                        (''password'', JStr row_password)])]))
            (except_sqlite_Error (\<lambda>msg. block [
               set_status span (''Database error: '' @ msg),
               raise_exn (HTTPException 500 (''Database error: '' @ msg))])))
         conn_close])]"

text \<open>
  The except clauses of \<open>create_user\<close>, in the source's order:
  \<open>sqlite3.IntegrityError\<close> first, then its base class \<open>sqlite3.Error\<close>.
\<close>

definition except_create_user :: "nat \<Rightarrow> exn \<Rightarrow> stmt option" where
  "except_create_user span e =
     (case e of
        SqliteError IntegrityError msg \<Rightarrow> Some (block [
          conn_rollback,
          set_status span ''User already exists'',
          raise_exn (HTTPException 409 ''User already exists'')])
      | SqliteError OperationalError msg \<Rightarrow> Some (block [
          conn_rollback,
          set_status span (''Database error: '' @ msg),
          raise_exn (HTTPException 500 (''Database error: '' @ msg))])
      | _ \<Rightarrow> None)"

definition create_user :: "db_env \<Rightarrow> (string \<times> json) list \<Rightarrow> stmt" where
  "create_user env user_data = block [
     counter_add ''http_requests_total'' 1 [(''method'', ''POST''), (''endpoint'', ''/user'')],
     counter_add ''db_operations_total'' 1 [(''operation'', ''insert''), (''table'', ''users'')],
     with_span ''db.create_user'' (\<lambda>span. block [
       set_attribute span ''http.method'' (AStr ''POST''),
       set_attribute span ''http.route'' (AStr ''/user''),
       set_attribute span ''db.operation'' (AStr ''insert''),
       set_attribute span ''db.table'' (AStr ''users''),
       and_then (eval_expr (dict_get (JObj user_data) ''username'' JNull)) (\<lambda>username.
       and_then (eval_expr (dict_get (JObj user_data) ''password'' JNull)) (\<lambda>password. block [
         (if \<not> truthy username \<or> \<not> truthy password then block [
            set_status span ''Missing username or password'',
            raise_exn (HTTPException 400 ''Username and password required'')]
          else pass),
         set_attribute span ''user.username'' (attr_of username),
         get_db_connection env,
         try_finally
           (try_except
              (block [
                 with_span ''db.execute_insert'' (\<lambda>db_span. block [
                   and_then (execute env (insert_user username password)) (\<lambda>u. pass),
                   set_attribute db_span ''db.rows_affected'' (AInt 1)]),
                 histogram_record ''db_operation_duration_seconds''
                   [(''operation'', ''insert''), (''table'', ''users'')],
                 histogram_record ''http_request_duration_seconds''
                   [(''method'', ''POST''), (''endpoint'', ''/user''), (''status'', ''200'')],
                 return_val (JObj [
                   (''username'', username),
                   (''status'', JStr ''created''),
                   (''created_at'', JInt (int (now env)))])])
              (except_create_user span))
           conn_close]))])]"

text \<open>
  The endpoints of the db service with the arguments the framework binds. The
  \<open>Authorization\<close> header of the request is bound only by the handlers that declare it.
\<close>

datatype db_call =
    Store_data "(string \<times> json) list"
  | Retrieve_data string
  | List_items int
  | Delete_data string
  | Get_user string
  | Create_user "(string \<times> json) list"

fun db_handler :: "db_env \<Rightarrow> db_call \<Rightarrow> string option \<Rightarrow> stmt" where
  "db_handler env (Store_data data) authorization = store_data env data authorization"
| "db_handler env (Retrieve_data item_id) authorization = retrieve_data env item_id authorization"
| "db_handler env (List_items limit) authorization = list_items env limit authorization"
| "db_handler env (Delete_data item_id) authorization = delete_data env item_id authorization"
| "db_handler env (Get_user username) authorization = get_user env username"
| "db_handler env (Create_user user_data) authorization = create_user env user_data"

section \<open>Observations on one request\<close>

text \<open>The spans started, in order, each with its name and the span it was started under.\<close>

fun span_starts :: "event list \<Rightarrow> (nat \<times> string \<times> nat option) list" where
  "span_starts [] = []"
| "span_starts (SpanStart i name parent # es) = (i, name, parent) # span_starts es"
| "span_starts (e # es) = span_starts es"

fun started :: "event list \<Rightarrow> nat list" where
  "started [] = []"
| "started (SpanStart i name parent # es) = i # started es"
| "started (e # es) = started es"

fun ended :: "event list \<Rightarrow> nat list" where
  "ended [] = []"
| "ended (SpanEnd i # es) = i # ended es"
| "ended (e # es) = ended es"

text \<open>
  Reading the telemetry from left to right with the stack \<open>st\<close> of open spans: a start
  pushes, an end must name the span on top of the stack and pops it, and nothing is left
  open at the end.
\<close>

fun well_nested :: "nat list \<Rightarrow> event list \<Rightarrow> bool" where
  "well_nested st [] = (st = [])"
| "well_nested st (SpanStart i name parent # es) = well_nested (i # st) es"
| "well_nested st (SpanEnd i # es) =
     (case st of [] \<Rightarrow> False | j # st' \<Rightarrow> i = j \<and> well_nested st' es)"
| "well_nested st (e # es) = well_nested st es"

text \<open>
  Every span ends in last-in-first-out order, as many spans end as start, no span starts
  or ends twice, and the spans that end are the spans that start.
\<close>

definition spans_closed :: "event list \<Rightarrow> bool" where
  "spans_closed evs \<longleftrightarrow>
     well_nested [] evs \<and> length (started evs) = length (ended evs) \<and>
     distinct (started evs) \<and> distinct (ended evs) \<and> set (ended evs) = set (started evs)"

fun count_observations :: "event list \<Rightarrow> (string \<times> int \<times> (string \<times> string) list) list" where
  "count_observations [] = []"
| "count_observations (CounterAdd instrument delta tags # es) =
     (instrument, delta, tags) # count_observations es"
| "count_observations (e # es) = count_observations es"

fun duration_observations :: "event list \<Rightarrow> (string \<times> (string \<times> string) list) list" where
  "duration_observations [] = []"
| "duration_observations (HistogramRecord instrument tags # es) =
     (instrument, tags) # duration_observations es"
| "duration_observations (e # es) = duration_observations es"

text \<open>The error message a span ends with: the last \<open>set_status\<close> on it, if any.\<close>

fun span_status :: "nat \<Rightarrow> event list \<Rightarrow> string option" where
  "span_status i [] = None"
| "span_status i (SetStatus j msg # es) =
     (case span_status i es of
        Some later \<Rightarrow> Some later
      | None \<Rightarrow> if i = j then Some msg else None)"
| "span_status i (e # es) = span_status i es"

text \<open>
  What the caller of an endpoint sees: the framework answers 200 with the returned value,
  the status and detail of an \<open>HTTPException\<close>, and 500 for any other exception.
\<close>

fun http_response_of :: "unit completion \<Rightarrow> int \<times> json" where
  "http_response_of (Return body) = (200, body)"
| "http_response_of (Normal u) = (200, JNull)"
| "http_response_of (Raise (HTTPException status detail)) = (status, JObj [(''detail'', JStr detail)])"
| "http_response_of (Raise e) = (500, JStr ''Internal Server Error'')"

fun returned :: "'a completion \<Rightarrow> bool" where
  "returned (Return body) = True"
| "returned c = False"

text \<open>The \<open>method\<close> and \<open>endpoint\<close> tags each app handler passes to the meter.\<close>

fun metric_method :: "app_call \<Rightarrow> string" where
  "metric_method (Create_data data) = ''POST''"
| "metric_method (Get_data item_id) = ''GET''"
| "metric_method (Get_preset_data preset_id) = ''GET''"
| "metric_method List_presets = ''GET''"
| "metric_method Seed_preset_data = ''POST''"

fun metric_endpoint :: "app_call \<Rightarrow> string" where
  "metric_endpoint (Create_data data) = ''/api/data''"
| "metric_endpoint (Get_data item_id) = ''/api/data/{id}''"
| "metric_endpoint (Get_preset_data preset_id) = ''/api/preset/{id}''"
| "metric_endpoint List_presets = ''/api/presets''"
| "metric_endpoint Seed_preset_data = ''/api/seed''"

text \<open>
  The metrics of one request of the app service as the handlers record them: one count
  observation tagged with method and endpoint, and a duration observation, tagged with
  method, endpoint and status 200, exactly when the handler returns.
\<close>

definition metrics_as_designed :: "app_call \<Rightarrow> unit completion \<times> world \<Rightarrow> bool" where
  "metrics_as_designed call r \<longleftrightarrow>
     count_observations (events (snd r)) =
       [(''http_requests_total'', 1,
         [(''method'', metric_method call), (''endpoint'', metric_endpoint call)])] \<and>
     duration_observations (events (snd r)) =
       (if returned (fst r)
        then [(''http_request_duration_seconds'',
               [(''method'', metric_method call), (''endpoint'', metric_endpoint call),
                (''status'', ''200'')])]
        else [])"

text \<open>
  A request ends in the failure \<open>status\<close> with \<open>detail\<close>, its root span (span 0) carries
  the error message \<open>msg\<close>, and so does the child span \<open>child\<close> of the root, when one is
  given by number and name.
\<close>

definition reports ::
  "unit completion \<times> world \<Rightarrow> int \<Rightarrow> string \<Rightarrow> string \<Rightarrow> (nat \<times> string) option \<Rightarrow> bool" where
  "reports r status detail msg child \<longleftrightarrow>
     fst r = Raise (HTTPException status detail) \<and>
     span_status 0 (events (snd r)) = Some msg \<and>
     (case child of
        None \<Rightarrow> True
      | Some (i, name) \<Rightarrow>
          (i, name, Some 0) \<in> set (span_starts (events (snd r))) \<and>
          span_status i (events (snd r)) = Some msg)"

text \<open>The header is there and the auth service answers the first call with 200.\<close>

definition token_ok :: "net \<Rightarrow> string option \<Rightarrow> bool" where
  "token_ok nw authorization \<longleftrightarrow>
     present authorization \<and>
     (case nw 0 of Responds a \<Rightarrow> status_code a = 200 | Fails e \<Rightarrow> False)"

text \<open>
  What one store call of the seeding loop adds to \<open>stored_ids\<close>, and the replies the loop
  can read: a failure, a status other than 200, or a 200 whose body is a JSON object with
  an \<open>id\<close>.
\<close>

definition stored_id :: "http_outcome \<Rightarrow> json list" where
  "stored_id outcome =
     (case outcome of
        Fails e \<Rightarrow> []
      | Responds r \<Rightarrow>
          if status_code r = 200
          then (case content r of
                  Some (JObj kvs) \<Rightarrow> (case map_of kvs ''id'' of Some v \<Rightarrow> [v] | None \<Rightarrow> [])
                | _ \<Rightarrow> [])
          else [])"

definition usable :: "http_outcome \<Rightarrow> bool" where
  "usable outcome =
     (case outcome of
        Fails e \<Rightarrow> True
      | Responds r \<Rightarrow>
          if status_code r = 200
          then (case content r of
                  Some (JObj kvs) \<Rightarrow> map_of kvs ''id'' \<noteq> None
                | _ \<Rightarrow> False)
          else True)"

definition store_succeeds :: "http_outcome \<Rightarrow> bool" where
  "store_succeeds outcome =
     (case outcome of Fails e \<Rightarrow> False | Responds r \<Rightarrow> status_code r = 200)"

subsection \<open>Sample collaborators\<close>

definition token_accepted :: response where
  "token_accepted = \<lparr>status_code = 200, content = Some (JObj [(''valid'', JBool True)])\<rparr>"

definition stored_reply :: response where
  "stored_reply =
     \<lparr>status_code = 200,
      content = Some (JObj [(''id'', JStr ''abc-123''), (''status'', JStr ''stored'')])\<rparr>"

definition not_found_reply :: response where
  "not_found_reply =
     \<lparr>status_code = 404, content = Some (JObj [(''detail'', JStr ''Item not found'')])\<rparr>"

definition error_reply :: response where
  "error_reply = \<lparr>status_code = 500, content = None\<rparr>"

text \<open>The auth service refuses the connection; it times out.\<close>

definition auth_down :: net where
  "auth_down n = Fails ConnectError"

definition auth_timeout :: net where
  "auth_timeout n = Fails TimeoutException"

text \<open>The token is accepted, and the db service is unreachable.\<close>

definition db_down :: net where
  "db_down n = (if n = 0 then Responds token_accepted else Fails ConnectError)"

text \<open>The token is accepted, and the db service does not have the item.\<close>

definition db_not_found :: net where
  "db_not_found n = (if n = 0 then Responds token_accepted else Responds not_found_reply)"

text \<open>The token is accepted, and the db service answers 200 without an \<open>id\<close>.\<close>

definition db_no_id :: net where
  "db_no_id n =
     (if n = 0 then Responds token_accepted
      else Responds \<lparr>status_code = 200, content = Some (JObj [(''status'', JStr ''stored'')])\<rparr>)"

text \<open>
  The token is accepted; the first store call succeeds, the second is refused, every
  later one is answered with 500.
\<close>

definition db_flaky :: net where
  "db_flaky n =
     (if n = 0 then Responds token_accepted
      else if n = 1 then Responds stored_reply
      else if n = 2 then Fails ConnectError
      else Responds error_reply)"

definition no_token :: "string \<Rightarrow> jwt_error + (string \<times> json) list" where
  "no_token token = Inl (InvalidTokenError ''Not enough segments'')"

definition fixed_token :: "json \<Rightarrow> string" where
  "fixed_token payload = ''header.payload.signature''"

definition sample_jwt :: jwt_lib where
  "sample_jwt = \<lparr>encode = fixed_token, decode = no_token, utcnow = 0\<rparr>"

definition sample_env :: db_env where
  "sample_env = \<lparr>connect_fault = None, sql_fault = None, uuid4 = ''abc-123'', now = 0\<rparr>"

text \<open>The tables after \<open>init_db()\<close> on an empty file: the three default users, no item.\<close>

definition default_users :: "(string \<times> string) list" where
  "default_users =
     [(''admin'', ''admin123''), (''user1'', ''password1''), (''testuser'', ''testpass'')]"

definition init_db :: database where
  "init_db = \<lparr>users = map_of default_users, items = []\<rparr>"

subsection \<open>Invariants used in the proofs\<close>

text \<open>
  A stretch of telemetry that starts exactly the spans \<open>lo, ..., hi - 1\<close>, ends each of
  them once, and is well nested in itself: it leaves every stack of open spans as it was.
\<close>

definition segment :: "nat \<Rightarrow> nat \<Rightarrow> event list \<Rightarrow> bool" where
  "segment lo hi ev \<longleftrightarrow>
     started ev = [lo..<hi] \<and> distinct (ended ev) \<and> set (ended ev) = {lo..<hi} \<and>
     (\<forall>st rest. well_nested st (ev @ rest) = well_nested st rest)"

text \<open>
  A piece of a handler is scoped when, from every state, it only appends such a stretch
  and leaves the current-span context as it found it.
\<close>

definition scoped :: "'a prog \<Rightarrow> bool" where
  "scoped p \<longleftrightarrow>
     (\<forall>w. \<exists>ev. events (snd (p w)) = events w @ ev \<and> active (snd (p w)) = active w \<and>
        span_seq w \<le> span_seq (snd (p w)) \<and> segment (span_seq w) (span_seq (snd (p w))) ev)"

text \<open>A piece of a handler that records no metric and does not return.\<close>

definition silent :: "'a prog \<Rightarrow> bool" where
  "silent p \<longleftrightarrow>
     (\<forall>w. count_observations (events (snd (p w))) = count_observations (events w) \<and>
          duration_observations (events (snd (p w))) = duration_observations (events w) \<and>
          \<not> returned (fst (p w)))"

section \<open>Lemmas\<close>

lemma started_append: "started (xs @ ys) = started xs @ started ys"
  by (induction xs rule: started.induct) simp_all

lemma ended_append: "ended (xs @ ys) = ended xs @ ended ys"
  by (induction xs rule: ended.induct) simp_all

lemma segment_empty: "segment n n []"
  by (simp add: segment_def)

lemma segment_append:
  assumes "segment lo mid xs" "segment mid hi ys" "lo \<le> mid" "mid \<le> hi"
  shows "segment lo hi (xs @ ys)"
proof -
  have "[lo..<mid] @ [mid..<hi] = [lo..<hi]"
    using assms(3,4) by (metis le_Suc_ex upt_add_eq_append)
  moreover have "{lo..<mid} \<union> {mid..<hi} = {lo..<hi}" "{lo..<mid} \<inter> {mid..<hi} = {}"
    using assms(3,4) by auto
  ultimately show ?thesis
    using assms(1,2) by (simp add: segment_def started_append ended_append)
qed

lemma segment_span:
  assumes "segment (Suc i) hi ev" "Suc i \<le> hi"
  shows "segment i hi (SpanStart i name parent # ev @ [SpanEnd i])"
proof -
  have "i # [Suc i..<hi] = [i..<hi]"
    using assms(2) by (simp add: upt_conv_Cons)
  moreover have "insert i {Suc i..<hi} = {i..<hi}"
    using assms(2) by auto
  ultimately show ?thesis
    using assms(1) by (simp add: segment_def started_append ended_append)
qed

lemma segment_other:
  "started [e] = [] \<Longrightarrow> ended [e] = [] \<Longrightarrow> segment n n [e]"
  by (cases e) (simp_all add: segment_def)

lemma scopedI:
  assumes "\<And>w. \<exists>ev. events (snd (p w)) = events w @ ev \<and> active (snd (p w)) = active w \<and>
        span_seq w \<le> span_seq (snd (p w)) \<and> segment (span_seq w) (span_seq (snd (p w))) ev"
  shows "scoped p"
  using assms by (simp add: scoped_def)

lemma scoped_same:
  assumes "\<And>w. events (snd (p w)) = events w \<and> active (snd (p w)) = active w \<and> span_seq (snd (p w)) = span_seq w"
  shows "scoped p"
proof (rule scopedI)
  fix w
  show "\<exists>ev. events (snd (p w)) = events w @ ev \<and> active (snd (p w)) = active w \<and>
        span_seq w \<le> span_seq (snd (p w)) \<and> segment (span_seq w) (span_seq (snd (p w))) ev"
    using assms[of w] by (intro exI[of _ "[]"]) (simp add: segment_empty)
qed

lemma scoped_pass: "scoped pass"
  by (rule scoped_same) (simp add: pass_def)

lemma scoped_unit_prog: "scoped (unit_prog v)"
  by (rule scoped_same) (simp add: unit_prog_def)

lemma scoped_return_val: "scoped (return_val v)"
  by (rule scoped_same) (simp add: return_val_def)

lemma scoped_raise_exn: "scoped (raise_exn e)"
  by (rule scoped_same) (simp add: raise_exn_def)

lemma scoped_eval_expr: "scoped (eval_expr r)"
  by (rule scoped_same) (simp add: eval_expr_def split: sum.split)

lemma scoped_http_call: "scoped (http_call nw req)"
  by (rule scoped_same) (simp add: http_call_def Let_def split: http_outcome.split)

lemma scoped_execute: "scoped (execute env statement)"
  by (rule scoped_same) (simp add: execute_def split: option.split sum.split prod.split)

lemma scoped_get_db_connection: "scoped (get_db_connection env)"
  by (rule scoped_same) (simp add: get_db_connection_def raise_exn_def pass_def split: option.split)

lemma scoped_conn: "scoped conn_close" "scoped conn_rollback"
  by (simp_all add: conn_close_def conn_rollback_def scoped_pass)

lemma scoped_emit:
  assumes "started [e] = []" "ended [e] = []"
  shows "scoped (emit e)"
proof (rule scopedI)
  fix w
  show "\<exists>ev. events (snd (emit e w)) = events w @ ev \<and> active (snd (emit e w)) = active w \<and>
        span_seq w \<le> span_seq (snd (emit e w)) \<and> segment (span_seq w) (span_seq (snd (emit e w))) ev"
    using assms by (intro exI[of _ "[e]"]) (simp add: emit_def segment_other)
qed

lemma scoped_telemetry:
  "scoped (set_attribute span k v)" "scoped (set_status span msg)"
  "scoped (counter_add instrument delta tags)" "scoped (histogram_record instrument tags)"
  by (simp_all add: set_attribute_def set_status_def counter_add_def histogram_record_def scoped_emit)

lemma scoped_and_then:
  assumes m: "scoped m" and k: "\<And>v. scoped (k v)"
  shows "scoped (and_then m k)"
proof (rule scopedI)
  fix w
  obtain c w1 where mw: "m w = (c, w1)" by (cases "m w")
  from m obtain ev1 where 1: "events w1 = events w @ ev1" "active w1 = active w"
      "span_seq w \<le> span_seq w1" "segment (span_seq w) (span_seq w1) ev1"
    unfolding scoped_def using mw by (metis snd_conv)
  show "\<exists>ev. events (snd (and_then m k w)) = events w @ ev \<and> active (snd (and_then m k w)) = active w \<and>
        span_seq w \<le> span_seq (snd (and_then m k w)) \<and> segment (span_seq w) (span_seq (snd (and_then m k w))) ev"
  proof (cases c)
    case (Normal v)
    from k[of v] obtain ev2 where 2: "events (snd (k v w1)) = events w1 @ ev2" "active (snd (k v w1)) = active w1"
      "span_seq w1 \<le> span_seq (snd (k v w1))" "segment (span_seq w1) (span_seq (snd (k v w1))) ev2"
      unfolding scoped_def by blast
    have "and_then m k w = k v w1" using mw Normal by (simp add: and_then_def)
    then show ?thesis using 1 2 segment_append[OF 1(4) 2(4) 1(3) 2(3)]
      by (intro exI[of _ "ev1 @ ev2"]) simp
  next
    case (Return j)
    then have "and_then m k w = (Return j, w1)" using mw by (simp add: and_then_def)
    then show ?thesis using 1 by (intro exI[of _ ev1]) simp
  next
    case (Raise e)
    then have "and_then m k w = (Raise e, w1)" using mw by (simp add: and_then_def)
    then show ?thesis using 1 by (intro exI[of _ ev1]) simp
  qed
qed

lemma block_Cons: "block (s # ss) = and_then s (\<lambda>u. block ss)"
  by (rule ext) (simp add: and_then_def split: prod.split completion.split)

lemma scoped_block_Nil: "scoped (block [])"
  by (rule scoped_same) simp

lemma scoped_block_Cons: "scoped s \<Longrightarrow> scoped (block ss) \<Longrightarrow> scoped (block (s # ss))"
  by (simp only: block_Cons scoped_and_then)

lemma scoped_try_except:
  assumes b: "scoped body" and h: "\<And>e handler. clauses e = Some handler \<Longrightarrow> scoped handler"
  shows "scoped (try_except body clauses)"
proof (rule scopedI)
  fix w
  obtain c w1 where bw: "body w = (c, w1)" by (cases "body w")
  from b obtain ev1 where 1: "events w1 = events w @ ev1" "active w1 = active w"
      "span_seq w \<le> span_seq w1" "segment (span_seq w) (span_seq w1) ev1"
    unfolding scoped_def using bw by (metis snd_conv)
  let ?r = "try_except body clauses w"
  show "\<exists>ev. events (snd ?r) = events w @ ev \<and> active (snd ?r) = active w \<and>
        span_seq w \<le> span_seq (snd ?r) \<and> segment (span_seq w) (span_seq (snd ?r)) ev"
  proof (cases "\<exists>e handler. c = Raise e \<and> clauses e = Some handler")
    case True
    then obtain e handler where c: "c = Raise e" "clauses e = Some handler" by blast
    from h[OF c(2)] obtain ev2 where 2: "events (snd (handler w1)) = events w1 @ ev2"
      "active (snd (handler w1)) = active w1" "span_seq w1 \<le> span_seq (snd (handler w1))"
      "segment (span_seq w1) (span_seq (snd (handler w1))) ev2"
      unfolding scoped_def by blast
    have "?r = handler w1" using bw c by (simp add: try_except_def)
    then show ?thesis using 1 2 segment_append[OF 1(4) 2(4) 1(3) 2(3)]
      by (intro exI[of _ "ev1 @ ev2"]) simp
  next
    case False
    then have "snd ?r = w1" using bw
      by (auto simp: try_except_def split: completion.split option.split)
    then show ?thesis using 1 by (intro exI[of _ ev1]) simp
  qed
qed

lemma scoped_try_finally:
  assumes b: "scoped body" and f: "scoped cleanup"
  shows "scoped (try_finally body cleanup)"
proof (rule scopedI)
  fix w
  obtain c w1 where bw: "body w = (c, w1)" by (cases "body w")
  from b obtain ev1 where 1: "events w1 = events w @ ev1" "active w1 = active w"
      "span_seq w \<le> span_seq w1" "segment (span_seq w) (span_seq w1) ev1"
    unfolding scoped_def using bw by (metis snd_conv)
  from f obtain ev2 where 2: "events (snd (cleanup w1)) = events w1 @ ev2"
      "active (snd (cleanup w1)) = active w1" "span_seq w1 \<le> span_seq (snd (cleanup w1))"
      "segment (span_seq w1) (span_seq (snd (cleanup w1))) ev2"
    unfolding scoped_def by blast
  let ?r = "try_finally body cleanup w"
  have "snd ?r = snd (cleanup w1)" using bw
    by (simp add: try_finally_def split: prod.split completion.split)
  then show "\<exists>ev. events (snd ?r) = events w @ ev \<and> active (snd ?r) = active w \<and>
        span_seq w \<le> span_seq (snd ?r) \<and> segment (span_seq w) (span_seq (snd ?r)) ev"
    using 1 2 segment_append[OF 1(4) 2(4) 1(3) 2(3)]
    by (intro exI[of _ "ev1 @ ev2"]) simp
qed

lemma scoped_with_span:
  assumes b: "\<And>i. scoped (body i)"
  shows "scoped (with_span name body)"
proof (rule scopedI)
  fix w :: world
  define i where "i = span_seq w"
  define parent where "parent = (case active w of [] \<Rightarrow> None | p # ps \<Rightarrow> Some p)"
  define entered where "entered = w\<lparr>events := events w @ [SpanStart i name parent],
                      span_seq := Suc i, active := i # active w\<rparr>"
  obtain c w1 where bw: "body i entered = (c, w1)" by (cases "body i entered")
  from b[of i] obtain ev where 1: "events w1 = events entered @ ev"
      "span_seq entered \<le> span_seq w1" "segment (span_seq entered) (span_seq w1) ev"
    unfolding scoped_def using bw by (metis snd_conv)
  let ?r = "with_span name body w"
  have r: "?r = (c, w1\<lparr>events := events w1 @ [SpanEnd i], active := active w\<rparr>)"
    using bw by (simp add: with_span_def Let_def i_def parent_def entered_def)
  have seg: "segment i (span_seq w1) (SpanStart i name parent # ev @ [SpanEnd i])"
    using 1(2,3) by (intro segment_span) (simp_all add: entered_def)
  show "\<exists>ev. events (snd ?r) = events w @ ev \<and> active (snd ?r) = active w \<and>
        span_seq w \<le> span_seq (snd ?r) \<and> segment (span_seq w) (span_seq (snd ?r)) ev"
    using r 1 seg
    by (intro exI[of _ "SpanStart i name parent # ev @ [SpanEnd i]"]) (simp add: entered_def i_def)
qed

lemma scoped_if: "scoped a \<Longrightarrow> scoped b \<Longrightarrow> scoped (if c then a else b)"
  by simp

lemma scoped_except_RequestError:
  "scoped handler \<Longrightarrow> except_RequestError handler e = Some h \<Longrightarrow> scoped h"
  by (auto simp: except_RequestError_def split: exn.splits)

lemma scoped_except_sqlite_Error:
  "(\<And>msg. scoped (handler msg)) \<Longrightarrow> except_sqlite_Error handler e = Some h \<Longrightarrow> scoped h"
  by (auto simp: except_sqlite_Error_def split: exn.splits)

lemmas scoped_intros = scoped_pass scoped_unit_prog scoped_return_val scoped_raise_exn
  scoped_eval_expr scoped_http_call scoped_execute scoped_get_db_connection scoped_conn
  scoped_telemetry scoped_and_then scoped_block_Nil scoped_block_Cons scoped_try_except
  scoped_try_finally scoped_with_span scoped_if

lemma scoped_require_authorization: "scoped (require_authorization authorization span)"
  unfolding require_authorization_def by (intro scoped_intros)

lemma scoped_validate_token_span: "scoped (validate_token_span nw authorization span)"
  unfolding validate_token_span_def
  by (intro scoped_intros; (erule scoped_except_RequestError[rotated])?; intro scoped_intros)

lemma scoped_case_option:
  "scoped a \<Longrightarrow> (\<And>x. scoped (b x)) \<Longrightarrow> scoped (case v of None \<Rightarrow> a | Some x \<Rightarrow> b x)"
  by (cases v) simp_all

lemma scoped_case_prod: "(\<And>x y. scoped (f x y)) \<Longrightarrow> scoped (case p of (x, y) \<Rightarrow> f x y)"
  by (cases p) simp

lemma scoped_except_jwt: "except_jwt span e = Some h \<Longrightarrow> scoped h"
  by (auto simp: except_jwt_def split: exn.splits jwt_error.splits intro!: scoped_intros)

lemma scoped_except_create_user: "except_create_user span e = Some h \<Longrightarrow> scoped h"
  by (auto simp: except_create_user_def split: exn.splits sqlite_error.splits intro!: scoped_intros)

lemma scoped_except_IndexError:
  "scoped handler \<Longrightarrow> (case e of IndexError \<Rightarrow> Some handler | _ \<Rightarrow> None) = Some h \<Longrightarrow> scoped h"
  by (auto split: exn.splits)

lemmas scoped_except = scoped_except_RequestError[rotated] scoped_except_sqlite_Error[rotated]
  scoped_except_jwt scoped_except_create_user scoped_except_IndexError[rotated]

lemma scoped_create_data: "scoped (create_data nw data authorization)"
  unfolding create_data_def
  by (intro scoped_intros scoped_require_authorization scoped_validate_token_span
      | erule scoped_except)+

lemma scoped_get_data: "scoped (get_data nw item_id authorization)"
  unfolding get_data_def
  by (intro scoped_intros scoped_require_authorization scoped_validate_token_span
      | erule scoped_except)+

lemma scoped_get_preset_data: "scoped (get_preset_data nw preset_id authorization)"
  unfolding get_preset_data_def
  by (intro scoped_intros scoped_require_authorization scoped_validate_token_span scoped_case_option
      | erule scoped_except)+

lemma scoped_list_presets: "scoped (list_presets nw authorization)"
  unfolding list_presets_def
  by (intro scoped_intros scoped_require_authorization scoped_validate_token_span
      | erule scoped_except)+

lemma scoped_seed_item: "scoped (seed_item nw authorization idx item stored_ids)"
  unfolding seed_item_def
  by (intro scoped_intros | erule scoped_except)+

lemma seed_loop_Cons:
  "seed_loop nw authorization ((idx, item) # rest) stored_ids =
     and_then (seed_item nw authorization idx item stored_ids) (seed_loop nw authorization rest)"
  by (rule ext) (simp add: and_then_def split: prod.split completion.split)

lemma scoped_seed_loop: "scoped (seed_loop nw authorization todo stored_ids)"
proof (induction todo arbitrary: stored_ids)
  case Nil
  show ?case by (rule scoped_same) simp
next
  case (Cons a todo)
  obtain idx item where a: "a = (idx, item)" by (cases a)
  show ?case unfolding a seed_loop_Cons
    by (intro scoped_and_then scoped_seed_item Cons.IH)
qed

lemma scoped_seed_preset_data: "scoped (seed_preset_data nw authorization)"
  unfolding seed_preset_data_def
  by (intro scoped_intros scoped_require_authorization scoped_validate_token_span scoped_seed_loop
      | erule scoped_except)+

lemma scoped_app_handler: "scoped (app_handler nw call authorization)"
  by (cases call)
     (simp_all add: scoped_create_data scoped_get_data scoped_get_preset_data scoped_list_presets
        scoped_seed_preset_data)

lemma scoped_login: "scoped (login nw lib credentials)"
  unfolding login_def
  by (intro scoped_intros | erule scoped_except)+

lemma scoped_validate_token: "scoped (validate_token lib authorization)"
  unfolding validate_token_def
  by (intro scoped_intros | erule scoped_except)+

lemma scoped_token_info: "scoped (token_info lib authorization)"
  unfolding token_info_def
  by (intro scoped_intros | erule scoped_except)+

lemma scoped_auth_handler: "scoped (auth_handler nw lib call)"
  by (cases call) (simp_all add: scoped_login scoped_validate_token scoped_token_info)

lemma scoped_store_data: "scoped (store_data env data authorization)"
  unfolding store_data_def
  by (intro scoped_intros | erule scoped_except)+

lemma scoped_retrieve_data: "scoped (retrieve_data env item_id authorization)"
  unfolding retrieve_data_def
  by (intro scoped_intros scoped_case_option | erule scoped_except)+

lemma scoped_list_items: "scoped (list_items env limit authorization)"
  unfolding list_items_def
  by (intro scoped_intros | erule scoped_except)+

lemma scoped_delete_data: "scoped (delete_data env item_id authorization)"
  unfolding delete_data_def
  by (intro scoped_intros | erule scoped_except)+

lemma scoped_get_user: "scoped (get_user env username)"
  unfolding get_user_def
  by (intro scoped_intros scoped_case_option scoped_case_prod | erule scoped_except)+

lemma scoped_create_user: "scoped (create_user env user_data)"
  unfolding create_user_def
  by (intro scoped_intros | erule scoped_except)+

lemma scoped_db_handler: "scoped (db_handler env call authorization)"
  by (cases call)
     (simp_all add: scoped_store_data scoped_retrieve_data scoped_list_items scoped_delete_data
        scoped_get_user scoped_create_user)

lemma scoped_spans_closed:
  assumes "scoped p"
  shows "spans_closed (events (snd (p (initial db))))"
proof -
  from assms obtain ev where ev: "events (snd (p (initial db))) = events (initial db) @ ev"
    "segment (span_seq (initial db)) (span_seq (snd (p (initial db)))) ev"
    unfolding scoped_def by blast
  define n where "n = span_seq (snd (p (initial db)))"
  have e: "events (snd (p (initial db))) = ev" using ev(1) by (simp add: initial_def)
  have s: "segment 0 n ev" using ev(2) by (simp add: initial_def n_def)
  then have wn: "well_nested [] (ev @ []) = well_nested [] []"
    unfolding segment_def by blast
  have "length (ended ev) = card {0..<n}"
    using s distinct_card[of "ended ev"] by (simp add: segment_def)
  then show ?thesis using s wn by (simp add: e spans_closed_def segment_def)
qed

lemmas combinators = pass_def unit_prog_def return_val_def raise_exn_def and_then_def eval_expr_def
  try_except_def except_RequestError_def with_span_def emit_def set_attribute_def set_status_def
  counter_add_def histogram_record_def http_call_def run_def initial_def

lemmas handlers = create_data_def get_data_def get_preset_data_def list_presets_def seed_preset_data_def
  require_authorization_def validate_token_span_def

lemma count_observations_append:
  "count_observations (xs @ ys) = count_observations xs @ count_observations ys"
  by (induction xs rule: count_observations.induct) simp_all

lemma duration_observations_append:
  "duration_observations (xs @ ys) = duration_observations xs @ duration_observations ys"
  by (induction xs rule: duration_observations.induct) simp_all

lemma silent_seed_item: "silent (seed_item nw authorization idx item stored_ids)"
  unfolding silent_def
proof
  fix w
  show "count_observations (events (snd (seed_item nw authorization idx item stored_ids w))) =
          count_observations (events w) \<and>
        duration_observations (events (snd (seed_item nw authorization idx item stored_ids w))) =
          duration_observations (events w) \<and>
        \<not> returned (fst (seed_item nw authorization idx item stored_ids w))"
    by (cases "nw (length (outbound w))")
       (simp_all add: seed_item_def combinators Let_def count_observations_append
          duration_observations_append json_of_def subscript_def
          split: option.split json.split)
qed

lemma silent_seed_loop: "silent (seed_loop nw authorization todo stored_ids)"
proof (induction todo arbitrary: stored_ids)
  case Nil
  show ?case by (simp add: silent_def)
next
  case (Cons a todo)
  obtain idx item where a: "a = (idx, item)" by (cases a)
  show ?case
    unfolding silent_def
  proof
    fix w
    obtain c w1 where s: "seed_item nw authorization idx item stored_ids w = (c, w1)"
      by (cases "seed_item nw authorization idx item stored_ids w")
    have 1: "count_observations (events w1) = count_observations (events w)"
      "duration_observations (events w1) = duration_observations (events w)" "\<not> returned c"
      using silent_seed_item[of nw authorization idx item stored_ids] s
      unfolding silent_def by (metis fst_conv snd_conv)+
    let ?r = "seed_loop nw authorization (a # todo) stored_ids w"
    show "count_observations (events (snd ?r)) = count_observations (events w) \<and>
          duration_observations (events (snd ?r)) = duration_observations (events w) \<and>
          \<not> returned (fst ?r)"
    proof (cases c)
      case (Normal ids)
      then have "?r = seed_loop nw authorization todo ids w1" using s a by simp
      then show ?thesis using Cons.IH[of ids] 1 by (simp add: silent_def)
    next
      case (Return j)
      then show ?thesis using 1 by simp
    next
      case (Raise e)
      then have "?r = (Raise e, w1)" using s a by simp
      then show ?thesis using 1 by simp
    qed
  qed
qed

lemma seed_loop_silentD:
  "seed_loop nw authorization todo stored_ids w = (c, w') \<Longrightarrow>
     count_observations (events w') = count_observations (events w) \<and>
     duration_observations (events w') = duration_observations (events w) \<and> \<not> returned c"
  using silent_seed_loop[of nw authorization todo stored_ids]
  unfolding silent_def by (metis fst_conv snd_conv)

lemma metrics_create_data: "metrics_as_designed (Create_data data) (run (create_data nw data authorization))"
  by (cases "present authorization"; cases "nw 0"; cases "nw (Suc 0)")
     (simp_all add: metrics_as_designed_def combinators handlers json_of_def dict_get_def
       split: option.split json.split)

lemma metrics_get_data: "metrics_as_designed (Get_data item_id) (run (get_data nw item_id authorization))"
  by (cases "present authorization"; cases "nw 0"; cases "nw (Suc 0)")
     (simp_all add: metrics_as_designed_def combinators handlers json_of_def dict_get_def
       split: option.split json.split)

lemma metrics_get_preset_data: "metrics_as_designed (Get_preset_data preset_id) (run (get_preset_data nw preset_id authorization))"
  by (cases "present authorization"; cases "nw 0"; cases "map_of preset_data preset_id")
     (simp_all add: metrics_as_designed_def combinators handlers json_of_def dict_get_def
       split: option.split json.split)

lemma metrics_list_presets: "metrics_as_designed List_presets (run (list_presets nw authorization))"
  by (cases "present authorization"; cases "nw 0")
     (simp_all add: metrics_as_designed_def combinators handlers json_of_def dict_get_def
       split: option.split json.split)

lemma metrics_seed_preset_data: "metrics_as_designed Seed_preset_data (run (seed_preset_data nw authorization))"
proof (cases "present authorization")
  case False
  then show ?thesis by (simp add: metrics_as_designed_def combinators handlers)
next
  case True
  show ?thesis
  proof (cases "nw 0")
    case (Fails e)
    then show ?thesis using True by (simp add: metrics_as_designed_def combinators handlers)
  next
    case (Responds a)
    show ?thesis
    proof (cases "status_code a = 200")
      case False
      then show ?thesis using True Responds
        by (simp add: metrics_as_designed_def combinators handlers)
    next
      case ok: True
      show ?thesis using True Responds ok
        by (auto simp: metrics_as_designed_def combinators handlers
              count_observations_append duration_observations_append
            split: prod.splits completion.splits dest!: seed_loop_silentD)
    qed
  qed
qed

lemma reports_missing_header:
  "\<not> present authorization \<Longrightarrow>
   reports (run (app_handler nw call authorization)) 401 ''Missing authorization header''
     ''Missing authorization'' None"
  by (cases call) (simp_all add: reports_def combinators handlers)

lemma reports_auth_down:
  "present authorization \<Longrightarrow> nw 0 = Fails e \<Longrightarrow>
   reports (run (app_handler nw call authorization)) 503 ''Auth service unavailable''
     ''Auth service unavailable'' (Some (1, ''app.validate_token''))"
  by (cases call) (simp_all add: reports_def combinators handlers)

lemma reports_auth_rejects:
  "present authorization \<Longrightarrow> nw 0 = Responds a \<Longrightarrow> status_code a \<noteq> 200 \<Longrightarrow>
   reports (run (app_handler nw call authorization)) 401 ''Invalid token''
     ''Invalid token'' (Some (1, ''app.validate_token''))"
  by (cases call) (simp_all add: reports_def combinators handlers)

lemma reports_create_down:
  "token_ok nw authorization \<Longrightarrow> nw (Suc 0) = Fails e \<Longrightarrow>
   reports (run (app_handler nw (Create_data data) authorization)) 503 ''Database service unavailable''
     ''Database service unavailable'' (Some (2, ''app.store_data''))"
  by (cases "nw 0") (simp_all add: token_ok_def reports_def combinators handlers)

lemma reports_create_error:
  "token_ok nw authorization \<Longrightarrow> nw (Suc 0) = Responds d \<Longrightarrow> status_code d \<noteq> 200 \<Longrightarrow>
   reports (run (app_handler nw (Create_data data) authorization)) 500 ''Database operation failed''
     ''Database operation failed'' (Some (2, ''app.store_data''))"
  by (cases "nw 0") (simp_all add: token_ok_def reports_def combinators handlers)

lemma reports_get_down:
  "token_ok nw authorization \<Longrightarrow> nw (Suc 0) = Fails e \<Longrightarrow>
   reports (run (app_handler nw (Get_data item_id) authorization)) 503 ''Database service unavailable''
     ''Database service unavailable'' (Some (2, ''app.retrieve_data''))"
  by (cases "nw 0") (simp_all add: token_ok_def reports_def combinators handlers)

lemma reports_get_absent:
  "token_ok nw authorization \<Longrightarrow> nw (Suc 0) = Responds d \<Longrightarrow> status_code d = 404 \<Longrightarrow>
   reports (run (app_handler nw (Get_data item_id) authorization)) 404 ''Item not found''
     ''Item not found'' (Some (2, ''app.retrieve_data''))"
  by (cases "nw 0") (simp_all add: token_ok_def reports_def combinators handlers)

lemma reports_get_error:
  "token_ok nw authorization \<Longrightarrow> nw (Suc 0) = Responds d \<Longrightarrow> status_code d \<noteq> 200 \<Longrightarrow>
   status_code d \<noteq> 404 \<Longrightarrow>
   reports (run (app_handler nw (Get_data item_id) authorization)) 500 ''Database operation failed''
     ''Database operation failed'' (Some (2, ''app.retrieve_data''))"
  by (cases "nw 0") (simp_all add: token_ok_def reports_def combinators handlers)

lemma reports_preset_absent:
  "token_ok nw authorization \<Longrightarrow> map_of preset_data preset_id = None \<Longrightarrow>
   reports (run (app_handler nw (Get_preset_data preset_id) authorization)) 404
     (preset_not_found_detail preset_id) ''Preset not found'' None"
  by (cases "nw 0") (simp_all add: token_ok_def reports_def combinators handlers)

lemma seed_item_usable:
  assumes "usable (nw (length (outbound w)))"
  shows "\<exists>w'. seed_item nw authorization idx item stored_ids w =
            (Normal (stored_ids @ stored_id (nw (length (outbound w)))), w') \<and>
          length (outbound w') = Suc (length (outbound w))"
  using assms
  by (cases "nw (length (outbound w))")
     (auto simp: seed_item_def combinators Let_def usable_def stored_id_def json_of_def subscript_def
        split: option.splits json.splits if_splits)

lemma seed_loop_usable:
  assumes "\<forall>j < length todo. usable (nw (length (outbound w) + j))"
  shows "\<exists>w'. seed_loop nw authorization todo stored_ids w =
            (Normal (stored_ids @
               concat (map (\<lambda>j. stored_id (nw (length (outbound w) + j))) [0..<length todo])), w')"
  using assms
proof (induction todo arbitrary: w stored_ids)
  case Nil
  then show ?case by simp
next
  case (Cons a todo)
  obtain idx item where a: "a = (idx, item)" by (cases a)
  from Cons.prems have u: "usable (nw (length (outbound w)))" by force
  from seed_item_usable[where nw=nw and w=w and authorization=authorization and idx=idx
      and item=item and stored_ids=stored_ids] u
  obtain w1 where 1: "seed_item nw authorization idx item stored_ids w =
      (Normal (stored_ids @ stored_id (nw (length (outbound w)))), w1)"
      "length (outbound w1) = Suc (length (outbound w))" by blast
  have "\<forall>j < length todo. usable (nw (length (outbound w1) + j))"
    using Cons.prems 1(2) by auto
  from Cons.IH[where w=w1 and stored_ids="stored_ids @ stored_id (nw (length (outbound w)))"] this
  obtain w2 where 2: "seed_loop nw authorization todo (stored_ids @ stored_id (nw (length (outbound w)))) w1 =
      (Normal ((stored_ids @ stored_id (nw (length (outbound w)))) @
         concat (map (\<lambda>j. stored_id (nw (length (outbound w1) + j))) [0..<length todo])), w2)" by blast
  have "map (\<lambda>j. stored_id (nw (length (outbound w) + j))) [0..<length (a # todo)] =
        stored_id (nw (length (outbound w))) # map (\<lambda>j. stored_id (nw (length (outbound w1) + j))) [0..<length todo]"
  proof -
    have "[0..<length (a # todo)] = 0 # map Suc [0..<length todo]"
      by (simp add: upt_conv_Cons map_Suc_upt del: upt_Suc)
    then show ?thesis using 1(2) by (simp add: o_def del: upt_Suc)
  qed
  then show ?case using 1 2 a by simp
qed

lemmas db_combinators = try_finally_def get_db_connection_def conn_close_def conn_rollback_def
  execute_def except_sqlite_Error_def

section \<open>The claims\<close>

subsection \<open>C1: metrics of one request\<close>

text \<open>
  Claim C1, as the code has it. For every request to one of the five app handlers,
  whatever the collaborators answer: exactly one count observation is recorded, tagged
  with the method and the endpoint (it is made on entry and carries no status); and
  exactly one duration observation, tagged with method, endpoint and status 200, is
  recorded when the handler returns, none when it raises.
\<close>

theorem request_metrics_as_recorded:
  "metrics_as_designed call (run (app_handler nw call authorization))"
  by (cases call)
     (simp_all add: metrics_create_data metrics_get_data metrics_get_preset_data
        metrics_list_presets metrics_seed_preset_data)

theorem request_metrics_as_recorded_witness:
  "metrics_as_designed (Get_data ''abc-123'')
     (run (app_handler db_not_found (Get_data ''abc-123'') (Some ''Bearer t'')))"
  using request_metrics_as_recorded [of "Get_data ''abc-123''" db_not_found "Some ''Bearer t''"]
  by simp

text \<open>
  C1 as stated fails: a request without the header ends in 401 with no duration
  observation at all, and its count observation has no status tag.
\<close>

theorem no_duration_on_failure:
  "fst (run (app_handler auth_down (Get_data ''abc-123'') None)) =
     Raise (HTTPException 401 ''Missing authorization header'') \<and>
   duration_observations (events (snd (run (app_handler auth_down (Get_data ''abc-123'') None)))) = [] \<and>
   count_observations (events (snd (run (app_handler auth_down (Get_data ''abc-123'') None)))) =
     [(''http_requests_total'', 1, [(''method'', ''GET''), (''endpoint'', ''/api/data/{id}'')])]"
  by (simp add: combinators handlers present_def)

subsection \<open>C2: collaborator outcomes and the caller-visible status\<close>

text \<open>
  Claim C2, as the code has it, for a request \<open>r\<close> to one of the five app handlers.
  A missing or empty header gives 401 with the root span set to error (no child span
  exists then). An unreachable auth service gives 503 and an auth reply other than 200
  gives 401, each with the \<open>app.validate_token\<close> span and the root span set to error.
  Once the token is accepted: in \<open>create_data\<close> an unreachable db service gives 503 and a
  reply other than 200 gives 500; in \<open>get_data\<close> an unreachable db service gives 503, a 404
  reply gives 404 and any other reply that is not 200 gives 500; each with the handler's
  db span and the root span set to error; and \<open>get_preset_data\<close> gives 404 for an unknown
  preset with the root span set to error. The failures of the store calls of
  \<open>seed_preset_data\<close> are not part of this mapping.
\<close>

theorem collaborator_failures_mapped:
  assumes "r = run (app_handler nw call authorization)"
  shows
   "(\<not> present authorization \<longrightarrow>
       reports r 401 ''Missing authorization header'' ''Missing authorization'' None) \<and>
    (present authorization \<and> nw 0 = Fails e \<longrightarrow>
       reports r 503 ''Auth service unavailable'' ''Auth service unavailable''
         (Some (1, ''app.validate_token''))) \<and>
    (present authorization \<and> nw 0 = Responds a \<and> status_code a \<noteq> 200 \<longrightarrow>
       reports r 401 ''Invalid token'' ''Invalid token'' (Some (1, ''app.validate_token''))) \<and>
    (token_ok nw authorization \<and> call = Create_data data \<and> nw 1 = Fails e \<longrightarrow>
       reports r 503 ''Database service unavailable'' ''Database service unavailable''
         (Some (2, ''app.store_data''))) \<and>
    (token_ok nw authorization \<and> call = Create_data data \<and> nw 1 = Responds d \<and>
       status_code d \<noteq> 200 \<longrightarrow>
       reports r 500 ''Database operation failed'' ''Database operation failed''
         (Some (2, ''app.store_data''))) \<and>
    (token_ok nw authorization \<and> call = Get_data item_id \<and> nw 1 = Fails e \<longrightarrow>
       reports r 503 ''Database service unavailable'' ''Database service unavailable''
         (Some (2, ''app.retrieve_data''))) \<and>
    (token_ok nw authorization \<and> call = Get_data item_id \<and> nw 1 = Responds d \<and>
       status_code d = 404 \<longrightarrow>
       reports r 404 ''Item not found'' ''Item not found'' (Some (2, ''app.retrieve_data''))) \<and>
    (token_ok nw authorization \<and> call = Get_data item_id \<and> nw 1 = Responds d \<and>
       status_code d \<noteq> 200 \<and> status_code d \<noteq> 404 \<longrightarrow>
       reports r 500 ''Database operation failed'' ''Database operation failed''
         (Some (2, ''app.retrieve_data''))) \<and>
    (token_ok nw authorization \<and> call = Get_preset_data preset_id \<and>
       map_of preset_data preset_id = None \<longrightarrow>
       reports r 404 (preset_not_found_detail preset_id) ''Preset not found'' None)"
  unfolding assms
  by (intro conjI impI; (elim conjE)?; hypsubst?;
      (rule reports_missing_header reports_auth_down reports_auth_rejects reports_create_down
         reports_create_error reports_get_down reports_get_absent reports_get_error
         reports_preset_absent; (assumption | simp)))

theorem collaborator_failures_mapped_witness:
  "token_ok db_not_found (Some ''Bearer t'') \<and>
   db_not_found 1 = Responds not_found_reply \<and> status_code not_found_reply = 404 \<and>
   reports (run (app_handler db_not_found (Get_data ''abc-123'') (Some ''Bearer t'')))
     404 ''Item not found'' ''Item not found'' (Some (2, ''app.retrieve_data''))"
  using collaborator_failures_mapped
    [where nw = db_not_found and call = "Get_data ''abc-123''"
       and authorization = "Some ''Bearer t''" and item_id = "''abc-123''"
       and d = not_found_reply and e = ConnectError and a = token_accepted
       and data = "[]" and preset_id = "''welcome''", OF refl]
  by (simp add: token_ok_def present_def db_not_found_def token_accepted_def not_found_reply_def)

text \<open>
  C2 as stated fails in \<open>seed_preset_data\<close>: with the db service unreachable the handler
  still returns 200, and its root span is not set to error.
\<close>

theorem seed_swallows_unreachable_db:
  "fst (run (app_handler db_down Seed_preset_data (Some ''Bearer t''))) =
     Return (JObj [(''status'', JStr ''seeded''), (''items_created'', JInt 0),
                   (''item_ids'', JArr [])]) \<and>
   span_status 0 (events (snd (run (app_handler db_down Seed_preset_data (Some ''Bearer t''))))) =
     None"
  by (simp add: combinators handlers present_def header_value_def db_down_def token_accepted_def
      seed_items_def seed_item_def store_request_def validate_request_def enumerate_eq_zip)

subsection \<open>C3: spans are closed, last in first out\<close>

text \<open>
  Claim C3. For every request to a handler of the app, auth or db service, whatever the
  collaborators, the JWT library and SQLite do: every span that is started is ended
  exactly once, in strict reverse order of starting, so that the number of spans started
  equals the number of spans ended.
\<close>

theorem spans_closed_lifo:
  "spans_closed (events (snd (run (app_handler nw acall authorization)))) \<and>
   spans_closed (events (snd (run (auth_handler nw' lib ucall)))) \<and>
   spans_closed (events (snd (db_handler env dcall authorization' (initial db))))"
  unfolding run_def
  by (intro conjI scoped_spans_closed scoped_app_handler scoped_auth_handler scoped_db_handler)

theorem spans_closed_lifo_witness:
  "spans_closed (events (snd (run (app_handler db_flaky Seed_preset_data (Some ''Bearer t''))))) \<and>
   spans_closed (events (snd (run (auth_handler db_down sample_jwt (Validate_token (Some ''Bearer t'')))))) \<and>
   spans_closed (events (snd (db_handler sample_env (Get_user ''admin'') None (initial init_db))))"
  using spans_closed_lifo
    [of db_flaky Seed_preset_data "Some ''Bearer t''" db_down sample_jwt
       "Validate_token (Some ''Bearer t'')" sample_env "Get_user ''admin''" None init_db]
  by simp

subsection \<open>C4: no header, no child span\<close>

text \<open>
  Claim C4. For every request to one of the five app handlers without an Authorization
  header: the handler raises 401, the only span started is the root span, and no
  outbound call is made.
\<close>

theorem missing_header_unauthenticated:
  "fst (run (app_handler nw call None)) =
     Raise (HTTPException 401 ''Missing authorization header'') \<and>
   fst (http_response_of (fst (run (app_handler nw call None)))) = 401 \<and>
   map (\<lambda>s. snd (snd s)) (span_starts (events (snd (run (app_handler nw call None))))) = [None] \<and>
   outbound (snd (run (app_handler nw call None))) = []"
  by (cases call) (simp_all add: combinators handlers present_def)

theorem missing_header_unauthenticated_witness:
  "fst (run (app_handler db_flaky (Create_data [(''name'', JStr ''x'')]) None)) =
     Raise (HTTPException 401 ''Missing authorization header'') \<and>
   span_starts (events (snd (run (app_handler db_flaky (Create_data [(''name'', JStr ''x'')]) None)))) =
     [(0, ''app.create_data'', None)]"
  using missing_header_unauthenticated [of db_flaky "Create_data [(''name'', JStr ''x'')]"]
  by (simp add: combinators handlers present_def)

subsection \<open>C5: auth service unavailable\<close>

text \<open>
  Claim C5. For every request to one of the five app handlers that carries the header,
  when the call to the auth service raises a request error (a refused connection, or the
  5 second timeout running out): the handler raises 503 and the only outbound call of the
  request is the one to the auth service, so the db service is never called.
\<close>

theorem auth_unavailable_skips_db:
  assumes "present authorization" and "nw 0 = Fails e"
  shows "fst (run (app_handler nw call authorization)) =
           Raise (HTTPException 503 ''Auth service unavailable'') \<and>
         outbound (snd (run (app_handler nw call authorization))) =
           [validate_request (header_value authorization)] \<and>
         map target (outbound (snd (run (app_handler nw call authorization)))) = [AuthService] \<and>
         map timeout (outbound (snd (run (app_handler nw call authorization)))) = [5]"
  using assms
  by (cases call) (simp_all add: combinators handlers validate_request_def)

theorem auth_unavailable_skips_db_witness:
  "present (Some ''Bearer t'') \<and> auth_timeout 0 = Fails TimeoutException \<and>
   fst (run (app_handler auth_timeout Seed_preset_data (Some ''Bearer t''))) =
     Raise (HTTPException 503 ''Auth service unavailable'') \<and>
   map target (outbound (snd (run (app_handler auth_timeout Seed_preset_data (Some ''Bearer t''))))) =
     [AuthService]"
  using auth_unavailable_skips_db
    [of "Some ''Bearer t''" auth_timeout TimeoutException Seed_preset_data]
  by (simp add: present_def auth_timeout_def validate_request_def)

subsection \<open>C8: the instrumented get_data against the baseline\<close>

text \<open>
  Claim C8. For every item id, every header and every sequence of collaborator outcomes,
  the instrumented \<open>get_data\<close> of app.py and the \<open>get_data\<close> of baseline/app.py complete in
  the same way (the same returned body, or the same exception), so the caller sees the
  same status code and body; they also make the same outbound calls.
\<close>

theorem get_data_refines_baseline:
  "fst (run (get_data nw item_id authorization)) =
     fst (run (baseline_get_data nw item_id authorization)) \<and>
   http_response_of (fst (run (get_data nw item_id authorization))) =
     http_response_of (fst (run (baseline_get_data nw item_id authorization))) \<and>
   outbound (snd (run (get_data nw item_id authorization))) =
     outbound (snd (run (baseline_get_data nw item_id authorization)))"
  by (cases "present authorization"; cases "nw 0"; cases "nw (Suc 0)")
     (simp_all add: combinators handlers baseline_get_data_def json_of_def split: option.split)

theorem get_data_refines_baseline_witness:
  "http_response_of (fst (run (get_data db_not_found ''abc-123'' (Some ''Bearer t'')))) =
     (404, JObj [(''detail'', JStr ''Item not found'')]) \<and>
   http_response_of (fst (run (baseline_get_data db_not_found ''abc-123'' (Some ''Bearer t'')))) =
     (404, JObj [(''detail'', JStr ''Item not found'')])"
  using get_data_refines_baseline [of db_not_found "''abc-123''" "Some ''Bearer t''"]
  by (simp add: combinators baseline_get_data_def present_def header_value_def db_not_found_def
      token_accepted_def not_found_reply_def)

subsection \<open>C9: seeding\<close>

text \<open>
  Claim C9, as the code has it. For every request to \<open>seed_preset_data\<close> whose token the
  auth service accepts, when each of the three store calls fails, or is answered with a
  status other than 200, or is answered with 200 and a JSON object that has an \<open>id\<close>: the
  handler returns 200 with status "seeded", \<open>item_ids\<close> the ids of the calls answered with
  200 and \<open>items_created\<close> their number, which is 0 when no call is answered with 200.
\<close>

theorem seed_returns_seeded:
  assumes "present authorization" and "nw 0 = Responds a" and "status_code a = 200"
    and "usable (nw 1)" and "usable (nw 2)" and "usable (nw 3)"
    and "ids = stored_id (nw 1) @ stored_id (nw 2) @ stored_id (nw 3)"
  shows "fst (run (app_handler nw Seed_preset_data authorization)) =
           Return (JObj [(''status'', JStr ''seeded''),
                         (''items_created'', JInt (int (length ids))),
                         (''item_ids'', JArr ids)]) \<and>
         (\<not> store_succeeds (nw 1) \<and> \<not> store_succeeds (nw 2) \<and> \<not> store_succeeds (nw 3)
            \<longrightarrow> ids = [])"
proof -
  define w where "w = \<lparr>events =
         [CounterAdd ''http_requests_total'' 1 [(''method'', ''POST''), (''endpoint'', ''/api/seed'')],
          SpanStart 0 ''app.seed_data'' None, SetAttribute 0 ''http.method'' (AStr ''POST''),
          SetAttribute 0 ''http.route'' (AStr ''/api/seed''),
          SpanStart (Suc 0) ''app.validate_token'' (Some 0),
          SetAttribute (Suc 0) ''service'' (AStr ''auth-service''), SpanEnd (Suc 0),
          SpanStart (Suc (Suc 0)) ''app.seed_items'' (Some 0),
          SetAttribute (Suc (Suc 0)) ''items.count'' (AInt (int (length seed_items)))],
       span_seq = Suc (Suc (Suc 0)), active = [Suc (Suc 0), 0],
       outbound = [validate_request (header_value authorization)], tables = no_tables\<rparr>"
  have len: "length (outbound w) = 1" by (simp add: w_def)
  have "\<forall>j < length (enumerate 0 seed_items). usable (nw (length (outbound w) + j))"
  proof (intro allI impI)
    fix j assume "j < length (enumerate 0 seed_items)"
    then have "j = 0 \<or> j = 1 \<or> j = 2" by (auto simp: seed_items_def)
    then show "usable (nw (length (outbound w) + j))"
      using assms(4-6) len by (auto simp: numeral_2_eq_2 numeral_3_eq_3)
  qed
  from seed_loop_usable[where nw=nw and w=w and todo="enumerate 0 seed_items"
      and authorization="header_value authorization" and stored_ids="[]"] this
  obtain w' where loop: "seed_loop nw (header_value authorization) (enumerate 0 seed_items) [] w =
      (Normal ids, w')"
    using len assms(7) by (auto simp: seed_items_def upt_conv_Cons numeral_2_eq_2 numeral_3_eq_3)
  have "fst (run (app_handler nw Seed_preset_data authorization)) =
           Return (JObj [(''status'', JStr ''seeded''),
                         (''items_created'', JInt (int (length ids))),
                         (''item_ids'', JArr ids)])"
    using assms(1-3) loop
    by (simp add: combinators handlers w_def)
  moreover have "\<not> store_succeeds (nw 1) \<and> \<not> store_succeeds (nw 2) \<and> \<not> store_succeeds (nw 3)
            \<longrightarrow> ids = []"
    unfolding assms(7)
    by (auto simp: store_succeeds_def stored_id_def split: http_outcome.splits)
  ultimately show ?thesis by blast
qed

theorem seed_returns_seeded_witness:
  "present (Some ''Bearer t'') \<and> db_flaky 0 = Responds token_accepted \<and>
   status_code token_accepted = 200 \<and> usable (db_flaky 1) \<and> usable (db_flaky 2) \<and>
   usable (db_flaky 3) \<and>
   fst (run (app_handler db_flaky Seed_preset_data (Some ''Bearer t''))) =
     Return (JObj [(''status'', JStr ''seeded''), (''items_created'', JInt 1),
                   (''item_ids'', JArr [JStr ''abc-123''])])"
  using seed_returns_seeded
    [of "Some ''Bearer t''" db_flaky token_accepted
       "stored_id (db_flaky 1) @ stored_id (db_flaky 2) @ stored_id (db_flaky 3)"]
  by (simp add: present_def db_flaky_def token_accepted_def stored_reply_def error_reply_def
      usable_def stored_id_def)

text \<open>
  C9 as stated fails: when the db service answers a store call with 200 and a body
  without \<open>id\<close>, the subscript raises \<open>KeyError\<close>, which no clause of the loop catches, and
  the caller sees 500.
\<close>

theorem seed_fails_without_id:
  "fst (run (app_handler db_no_id Seed_preset_data (Some ''Bearer t''))) = Raise (KeyError ''id'') \<and>
   fst (http_response_of (fst (run (app_handler db_no_id Seed_preset_data (Some ''Bearer t''))))) = 500"
  by (simp add: combinators handlers present_def header_value_def db_no_id_def token_accepted_def
      seed_items_def seed_item_def store_request_def validate_request_def enumerate_eq_zip
      json_of_def subscript_def)

subsection \<open>C10: get_user\<close>

text \<open>
  Claim C10. For every username and every request to \<open>/user/{username}\<close> of the db
  service, with or without an Authorization header, when SQLite opens the file and runs
  the query: if the users table has the username, the handler returns (200) the username
  with the password as it is stored; if it has not, the handler raises 404.
\<close>

theorem get_user_returns_password:
  assumes "connect_fault env = None" and "sql_fault env = None"
  shows "(users db username = Some password \<longrightarrow>
            fst (db_handler env (Get_user username) authorization (initial db)) =
              Return (JObj [(''username'', JStr username), (''password'', JStr password)])) \<and>
         (users db username = None \<longrightarrow>
            fst (db_handler env (Get_user username) authorization (initial db)) =
              Raise (HTTPException 404 ''User not found''))"
  using assms
  by (simp add: get_user_def combinators db_combinators select_user_def)

theorem get_user_returns_password_witness:
  "connect_fault sample_env = None \<and> sql_fault sample_env = None \<and>
   users init_db ''admin'' = Some ''admin123'' \<and> users init_db ''nobody'' = None \<and>
   fst (db_handler sample_env (Get_user ''admin'') None (initial init_db)) =
     Return (JObj [(''username'', JStr ''admin''), (''password'', JStr ''admin123'')]) \<and>
   fst (db_handler sample_env (Get_user ''nobody'') None (initial init_db)) =
     Raise (HTTPException 404 ''User not found'')"
  using get_user_returns_password [of sample_env init_db "''admin''" "''admin123''" None]
    get_user_returns_password [of sample_env init_db "''nobody''" "''admin123''" None]
  by (simp add: sample_env_def init_db_def default_users_def)

end
